theory Spec2Isabelle
  imports Main "HOL-Library.List_Lexorder" "HOL-Library.Char_ord"
begin

section \<open>hwgraph: trace validation and graph dispatch (src/graph/hwgraph.py)\<close>

text \<open>
  A shallow embedding of the graph pipeline of \<^verbatim>\<open>src/graph/hwgraph.py\<close>:
  \<^verbatim>\<open>render_traces\<close>, \<^verbatim>\<open>compare_traces\<close>, \<^verbatim>\<open>graph_fans\<close>, \<^verbatim>\<open>graph_cpu\<close>,
  \<^verbatim>\<open>graph_thermal\<close>, \<^verbatim>\<open>graph_environment\<close> (with its nested \<^verbatim>\<open>valid_traces\<close>)
  and \<^verbatim>\<open>plot_graphs\<close>.

  Everything the Python does beyond returning a value is explicit: a function
  returns its count of rendered graphs together with the list of events
  (printed lines, directories, graph requests) it produced, in order; a raise
  or a call of \<^verbatim>\<open>fatal\<close> is an \<open>Inl\<close> value; the in-place update of
  \<^verbatim>\<open>args.same_enclosure\<close> is a returned, updated argument record.
\<close>

subsection \<open>The collaborators the pipeline consumes\<close>

text \<open>
  Modelled from the spec: the secondary-axis kinds \<^verbatim>\<open>THERMAL\<close> and \<^verbatim>\<open>POWER\<close>
  imported from \<^verbatim>\<open>graph.graph\<close>, which is not among the sources; the spec (4.3)
  names the two kinds thermal and power. A missing axis is Python's \<^verbatim>\<open>None\<close>.
\<close>

datatype axis = THERMAL | POWER

text \<open>
  Modelled from the spec: the \<^verbatim>\<open>Bench\<close> handle of \<^verbatim>\<open>graph.trace\<close>, which is not
  among the sources. The pipeline reads its job name (\<^verbatim>\<open>bench.job_name()\<close>) and
  its components of a type (\<^verbatim>\<open>bench.get_components("fan")\<close>), which it tests for
  emptiness and iterates.
\<close>

record Bench =
  job_name :: string
  get_components :: "string \<Rightarrow> string list"

text \<open>
  Modelled from the spec: the \<^verbatim>\<open>Trace\<close> handle of \<^verbatim>\<open>graph.trace\<close>, which is not among
  the sources (spec, 3: filename, logical name, original config, enclosure and
  chassis serial, bench names, the bench of a name, metric means of the first bench).
  \<^item> \<open>get_original_config\<close> is the iterable that \<^verbatim>\<open>set(...)\<close> and \<^verbatim>\<open>.difference(...)\<close>
    read, as the list of its entries;
  \<^item> \<open>get_enclosure_serial\<close> is a string, the empty string being the falsy value;
  \<^item> \<open>first_bench_metrics\<close> lists the metrics for which
    \<^verbatim>\<open>trace.get_metric_mean(trace.first_bench(), metric)\<close> returns; for any other
    metric the call raises \<^verbatim>\<open>KeyError\<close>.
\<close>

record Trace =
  filename :: string
  get_name :: string
  get_original_config :: "string list"
  get_enclosure_serial :: string
  get_chassis_serial :: string
  bench_list :: "string list"
  bench :: "string \<Rightarrow> Bench"
  first_bench_metrics :: "string list"

text \<open>
  The \<^verbatim>\<open>argparse\<close> namespace of the \<^verbatim>\<open>graph\<close> sub-command, with the attributes
  the pipeline reads or writes. \<open>no_env\<close> is declared with \<^verbatim>\<open>action="store_false"\<close>:
  it is \<open>True\<close> unless the user passes \<^verbatim>\<open>--no-env\<close>. The rendering options
  (title, dpi, width, height, format, engine, verbose) are only handed on to the
  renderer and are left out.
\<close>

record Args =
  traces :: "Trace list"
  no_env :: bool
  same_enclosure :: bool
  outdir :: string

text \<open>
  The ways the pipeline stops early. Modelled from the spec: \<^verbatim>\<open>fatal\<close> of
  \<^verbatim>\<open>graph.common\<close>, which is not among the sources; by the spec (5, 7) it prints the
  message and terminates the whole process with a non-zero exit status.
  \<open>IndexError\<close> is Python's error for \<^verbatim>\<open>args.traces[0]\<close> on an empty list.
\<close>

datatype error = Fatal string | IndexError

subsection \<open>Events and graph requests\<close>

text \<open>
  One value per call of an external renderer: \<^verbatim>\<open>generic_graph\<close>, \<^verbatim>\<open>yerr_graph\<close>
  (\<^verbatim>\<open>graph.graph\<close>), \<^verbatim>\<open>graph_enclosure\<close> (\<^verbatim>\<open>graph.enclosure\<close>), \<^verbatim>\<open>scaling_graph\<close>
  (\<^verbatim>\<open>graph.scaling\<close>) and \<^verbatim>\<open>individual_graph\<close> (\<^verbatim>\<open>graph.individual\<close>), with the
  arguments of the call. A bench is identified by the file name of its trace and
  its bench name.
\<close>

datatype request =
    GenericGraph string string string string "axis option"
  | YerrGraph string string string string
  | EnclosureGraph string
  | ScalingGraph string "string list"
  | IndividualGraph string "string list"

datatype event =
    Print string
  | InitMatplotlib
  | Mkdir string
  | MkdirSub string string
  | Request request

text \<open>
  The renderers are not among the sources. Each call returns an \<^verbatim>\<open>int\<close> that the
  caller adds to \<^verbatim>\<open>rendered_graphs\<close>; that number is a parameter of the model, a
  function of the request.
\<close>

type_synonym renderer = "request \<Rightarrow> nat"

definition issue :: "renderer \<Rightarrow> request \<Rightarrow> nat \<times> event list" where
  "issue R r = (R r, [Request r])"

text \<open>The graph requests among the events, in order.\<close>

fun requests :: "event list \<Rightarrow> request list" where
  "requests [] = []"
| "requests (Request r # es) = r # requests es"
| "requests (_ # es) = requests es"

text \<open>
  \<^verbatim>\<open>rendered_graphs += ...\<close> over a sequence of calls: the counts are added, the
  events follow each other.
\<close>

fun accumulate :: "(nat \<times> event list) list \<Rightarrow> nat \<times> event list" where
  "accumulate [] = (0, [])"
| "accumulate ((n, es) # rest) = (case accumulate rest of (m, fs) \<Rightarrow> (n + m, es @ fs))"

subsection \<open>compare\_traces\<close>

text \<open>
  \<^verbatim>\<open>set(args.traces[0].get_original_config()).difference(trace.get_original_config())\<close>:
  the entries of the reference configuration that the trace's configuration lacks.
\<close>

definition config_difference :: "Trace \<Rightarrow> Trace \<Rightarrow> string set" where
  "config_difference reference trace =
     set (get_original_config reference) - set (get_original_config trace)"

definition mismatch_message :: "Trace \<Rightarrow> string" where
  "mismatch_message trace =
     filename trace @ '' is not having the same configuration file as previous traces''"

definition duplicate_message :: "Trace \<Rightarrow> string" where
  "duplicate_message trace =
     filename trace @ '' is using '' @ [CHR 0x27] @ get_name trace @ [CHR 0x27]
       @ '' as logical_name while it's already in use''"

text \<open>
  The loop of \<^verbatim>\<open>compare_traces\<close> over the remaining traces, with the list
  \<^verbatim>\<open>names\<close> seen so far. \<open>all_traces\<close> is \<^verbatim>\<open>args.traces\<close>, read at index 0 in
  every round.
\<close>

fun compare_loop :: "Trace list \<Rightarrow> Trace list \<Rightarrow> string list \<Rightarrow> error + string list" where
  "compare_loop all_traces [] names = Inr names"
| "compare_loop all_traces (trace # rest) names =
     (case all_traces of
        [] \<Rightarrow> Inl IndexError
      | reference # _ \<Rightarrow>
          if config_difference reference trace \<noteq> {} then Inl (Fatal (mismatch_message trace))
          else if get_name trace \<in> set names then Inl (Fatal (duplicate_message trace))
          else compare_loop all_traces rest (names @ [get_name trace]))"

definition compare_traces :: "Args \<Rightarrow> error + unit" where
  "compare_traces args =
     (case compare_loop (traces args) (traces args) [] of
        Inl e \<Rightarrow> Inl e
      | Inr _ \<Rightarrow> Inr ())"

subsection \<open>The per-bench dispatchers\<close>

text \<open>
  The calls of the renderers. \<^verbatim>\<open>args\<close> and \<^verbatim>\<open>output_dir\<close> are handed on unchanged
  and are not recorded; the bench handle \<^verbatim>\<open>trace.bench(bench_name)\<close> is recorded
  as the trace's file name and the bench name.
\<close>

definition generic_graph ::
  "renderer \<Rightarrow> Trace \<Rightarrow> string \<Rightarrow> string \<Rightarrow> string \<Rightarrow> axis option \<Rightarrow> nat \<times> event list" where
  "generic_graph R trace bench_name component_type item_title second_axis =
     issue R (GenericGraph (filename trace) bench_name component_type item_title second_axis)"

definition yerr_graph ::
  "renderer \<Rightarrow> Trace \<Rightarrow> string \<Rightarrow> string \<Rightarrow> string \<Rightarrow> nat \<times> event list" where
  "yerr_graph R trace bench_name component_type component =
     issue R (YerrGraph (filename trace) bench_name component_type component)"

definition graph_fans :: "renderer \<Rightarrow> Trace \<Rightarrow> string \<Rightarrow> nat \<times> event list" where
  "graph_fans R trace bench_name =
     (let fans = get_components (bench trace bench_name) ''fan'' in
      if fans = [] then (0, [Print (bench_name @ '': no fans'')])
      else accumulate
        (map (\<lambda>second_axis.
                generic_graph R trace bench_name ''fan'' ''Fans speed'' (Some second_axis))
             [THERMAL, POWER]
         @ map (\<lambda>fan. yerr_graph R trace bench_name ''fan'' fan) fans))"

text \<open>The dictionary \<^verbatim>\<open>cpu_graphs\<close>, in insertion order, which is its iteration order.\<close>

definition cpu_graphs :: "(string \<times> string) list" where
  "cpu_graphs =
     [(''watt_core'', ''Core power consumption''),
      (''package'', ''Package power consumption''),
      (''mhz_core'', ''Core frequency'')]"

definition graph_cpu :: "renderer \<Rightarrow> Trace \<Rightarrow> string \<Rightarrow> nat \<times> event list" where
  "graph_cpu R trace bench_name =
     accumulate
       (concat
          (map (\<lambda>(graph, title).
                  map (\<lambda>second_axis. generic_graph R trace bench_name graph title second_axis)
                      [None, Some THERMAL, Some POWER])
               cpu_graphs))"

definition graph_thermal :: "renderer \<Rightarrow> Trace \<Rightarrow> string \<Rightarrow> nat \<times> event list" where
  "graph_thermal R trace bench_name =
     generic_graph R trace bench_name ''temp'' ''Temperatures'' None"

subsection \<open>graph\_environment\<close>

text \<open>Python's \<^verbatim>\<open>str\<close> of a non-negative \<^verbatim>\<open>int\<close>, for the formatted messages.\<close>

fun string_of_nat :: "nat \<Rightarrow> string" where
  "string_of_nat n =
     (if n < 10 then [''0123456789'' ! n]
      else string_of_nat (n div 10) @ [''0123456789'' ! (n mod 10)])"

text \<open>
  Lines 130 to 138: the reference trace's enclosure serial, and the in-place
  update \<^verbatim>\<open>args.same_enclosure = True\<close> when every trace reports it.
\<close>

definition detect_enclosure :: "Args \<Rightarrow> Trace \<Rightarrow> Args \<times> event list" where
  "detect_enclosure args reference =
     (let enclosure = get_enclosure_serial reference in
      if enclosure \<noteq> [] then
        (let enclosures = map (\<lambda>t. get_enclosure_serial t = enclosure) (traces args) in
         if count_list enclosures True = length (traces args) then
           (args\<lparr>same_enclosure := True\<rparr>,
            [Print (''environment: All traces are from the same enclosure ('' @ enclosure
                    @ ''), enabling --same-enclosure feature'')])
         else (args, []))
      else (args, []))"

text \<open>
  The \<^verbatim>\<open>try\<close> block of \<^verbatim>\<open>valid_traces\<close> for one trace: the metric at which
  \<^verbatim>\<open>get_metric_mean\<close> raises \<^verbatim>\<open>KeyError\<close>, if any.
\<close>

fun missing_metric :: "Trace \<Rightarrow> string list \<Rightarrow> string option" where
  "missing_metric trace [] = None"
| "missing_metric trace (metric # rest) =
     (if metric \<in> set (first_bench_metrics trace) then missing_metric trace rest
      else Some metric)"

definition missing_message :: "string \<Rightarrow> Trace \<Rightarrow> string" where
  "missing_message metric trace =
     ''environment: missing '' @ [CHR 0x27] @ metric @ [CHR 0x27]
       @ '' monitoric metric in '' @ filename trace @ '', disabling same-enclosure print''"

fun valid_loop :: "Trace list \<Rightarrow> string" where
  "valid_loop [] = []"
| "valid_loop (trace # rest) =
     (case missing_metric trace [''chassis'', ''enclosure''] of
        Some metric \<Rightarrow> missing_message metric trace
      | None \<Rightarrow> valid_loop rest)"

definition not_unique_message :: string where
  "not_unique_message = ''environment: chassis are not unique, disabling same-enclosure print''"

definition valid_traces :: "Args \<Rightarrow> string" where
  "valid_traces args =
     (let chassis = map get_chassis_serial (traces args) in
      if length chassis = length (traces args) then valid_loop (traces args)
      else not_unique_message)"

definition graph_enclosure :: "renderer \<Rightarrow> string \<Rightarrow> nat \<times> event list" where
  "graph_enclosure R bench_name = issue R (EnclosureGraph bench_name)"

text \<open>Lines 140 to 163: the validity gate and the environment-comparison graphs.\<close>

definition enclosure_gate :: "renderer \<Rightarrow> Args \<Rightarrow> Trace \<Rightarrow> nat \<times> event list" where
  "enclosure_gate R args reference =
     (if same_enclosure args then
        (let error_message = valid_traces args in
         if error_message = [] then
           accumulate (map (graph_enclosure R) (sort (bench_list reference)))
         else (0, [Print error_message]))
      else (0, []))"

text \<open>Lines 165 to 174, for one trace.\<close>

definition dispatch_trace :: "renderer \<Rightarrow> Args \<Rightarrow> Trace \<Rightarrow> nat \<times> event list" where
  "dispatch_trace R args trace =
     (let benches = bench_list trace in
      case accumulate
             (concat
                (map (\<lambda>bench_name.
                        [graph_fans R trace bench_name,
                         graph_cpu R trace bench_name,
                         graph_thermal R trace bench_name])
                     (sort benches))) of
        (n, es) \<Rightarrow>
          (n,
           [MkdirSub (outdir args) (get_name trace),
            Print (''environment: rendering '' @ string_of_nat (length benches)
                   @ '' jobs from '' @ filename trace @ '' ('' @ get_name trace @ '')'')]
           @ es))"

text \<open>
  \<^verbatim>\<open>graph_environment\<close> returns its count; the record returned with it is \<^verbatim>\<open>args\<close>
  after the call, which the Python mutates in place.
\<close>

definition graph_environment ::
  "renderer \<Rightarrow> Args \<Rightarrow> error + (nat \<times> Args \<times> event list)" where
  "graph_environment R args =
     (if \<not> no_env args then Inr (0, args, [Print ''environment: disabled by user''])
      else
        (case traces args of
           [] \<Rightarrow> Inl IndexError
         | reference # _ \<Rightarrow>
             (case detect_enclosure args reference of
                (args', notice) \<Rightarrow>
                  (case enclosure_gate R args' reference of
                     (n, es) \<Rightarrow>
                       (case accumulate (map (dispatch_trace R args') (traces args')) of
                          (m, fs) \<Rightarrow> Inr (n + m, args', notice @ es @ fs))))))"

subsection \<open>plot\_graphs\<close>

text \<open>The first loop of \<^verbatim>\<open>plot_graphs\<close>: \<^verbatim>\<open>jobs\<close> grows by the job names not yet in it.\<close>

fun collect_jobs :: "string list \<Rightarrow> string list \<Rightarrow> string list" where
  "collect_jobs [] jobs = jobs"
| "collect_jobs (job # rest) jobs =
     (if job \<notin> set jobs then collect_jobs rest (jobs @ [job])
      else collect_jobs rest jobs)"

text \<open>The job names of the reference trace's benches, in sorted bench-name order.\<close>

definition job_names :: "Trace \<Rightarrow> string list" where
  "job_names reference =
     map (\<lambda>bench_name. job_name (bench reference bench_name)) (sort (bench_list reference))"

definition scaling_graph :: "renderer \<Rightarrow> string \<Rightarrow> string list \<Rightarrow> nat \<times> event list" where
  "scaling_graph R job traces_name = issue R (ScalingGraph job traces_name)"

definition individual_graph :: "renderer \<Rightarrow> string \<Rightarrow> string list \<Rightarrow> nat \<times> event list" where
  "individual_graph R job traces_name = issue R (IndividualGraph job traces_name)"

definition plot_graphs :: "renderer \<Rightarrow> Args \<Rightarrow> error + (nat \<times> event list)" where
  "plot_graphs R args =
     (case traces args of
        [] \<Rightarrow> Inl IndexError
      | reference # _ \<Rightarrow>
          (let jobs = collect_jobs (job_names reference) [];
               traces_name = map get_name (traces args)
           in case accumulate (map (\<lambda>job. scaling_graph R job traces_name) jobs) of
                (n, es) \<Rightarrow>
                  (case accumulate (map (\<lambda>job. individual_graph R job traces_name) jobs) of
                     (m, fs) \<Rightarrow>
                       Inr (n + m,
                            [Print (''Scaling: rendering '' @ string_of_nat (length jobs)
                                    @ '' jobs'')]
                            @ es
                            @ [Print (''Individual: rendering '' @ string_of_nat (length jobs)
                                      @ '' jobs'')]
                            @ fs))))"

subsection \<open>render\_traces\<close>

text \<open>
  \<^verbatim>\<open>output_dir = pathlib.Path(args.outdir)\<close>, and the last line of the run prints
  \<^verbatim>\<open>output_dir\<close>, that is \<^verbatim>\<open>str\<close> of the path. On a POSIX system (the tool reads
  Linux hardware) \<^verbatim>\<open>pathlib\<close> keeps a root of one slash, or of two when the string
  starts with exactly two, splits the rest at the slashes, drops the empty parts
  and the parts \<^verbatim>\<open>.\<close>, and joins what is left with single slashes; a path with
  nothing left prints as \<^verbatim>\<open>.\<close>.
\<close>

fun split_sep :: "string \<Rightarrow> string list" where
  "split_sep [] = [[]]"
| "split_sep (c # cs) =
     (if c = CHR ''/'' then [] # split_sep cs
      else (case split_sep cs of
              [] \<Rightarrow> [[c]]
            | part # parts \<Rightarrow> (c # part) # parts))"

fun join_sep :: "string list \<Rightarrow> string" where
  "join_sep [] = []"
| "join_sep [part] = part"
| "join_sep (part # next_part # parts) = part @ ''/'' @ join_sep (next_part # parts)"

definition splitroot :: "string \<Rightarrow> string \<times> string" where
  "splitroot p =
     (if take 1 p = ''/'' then
        (if take 1 (drop 1 p) = ''/'' then
           (if take 1 (drop 2 p) = ''/'' then (''/'', drop 1 p) else (''//'', drop 2 p))
         else (''/'', drop 1 p))
      else ([], p))"

definition path_str :: "string \<Rightarrow> string" where
  "path_str p =
     (case splitroot p of
        (root, rel) \<Rightarrow>
          (let s = root @ join_sep (filter (\<lambda>part. part \<noteq> [] \<and> part \<noteq> ''.'') (split_sep rel))
           in if s = [] then ''.'' else s))"

text \<open>
  The outcome of a run is the total count, or the error that stopped it; the
  events are those produced up to that point. \<open>Mkdir\<close> and \<open>MkdirSub\<close> record the
  string the path was built from (and the name joined to it); the printed line
  has the string of the path.
\<close>

definition render_traces :: "renderer \<Rightarrow> Args \<Rightarrow> (error + nat) \<times> event list" where
  "render_traces R args =
     (let start = [InitMatplotlib, Mkdir (outdir args)] in
      case graph_environment R args of
        Inl e \<Rightarrow> (Inl e, start)
      | Inr (n, args', es) \<Rightarrow>
          (case compare_traces args' of
             Inl e \<Rightarrow> (Inl e, start @ es)
           | Inr _ \<Rightarrow>
               (case plot_graphs R args' of
                  Inl e \<Rightarrow> (Inl e, start @ es)
                | Inr (m, fs) \<Rightarrow>
                    (Inr (n + m),
                     start @ es @ fs
                     @ [Print (string_of_nat (n + m) @ '' graphs can be found in ''
                               @ [CHR 0x27] @ path_str (outdir args) @ [CHR 0x27]
                               @ '' directory'')]))))"

subsection \<open>The specification's reading of the job identities\<close>

text \<open>
  The spec (3, 4.4) describes the job identities as the job names with only the
  first occurrence of each kept, in the order of the traversal. This function
  follows those words; it is compared with \<open>collect_jobs\<close> below.
\<close>

fun first_occurrences :: "string list \<Rightarrow> string list" where
  "first_occurrences [] = []"
| "first_occurrences (x # xs) = x # first_occurrences [y \<leftarrow> xs. y \<noteq> x]"

subsection \<open>Sample traces\<close>

text \<open>
  Concrete traces on which the results below are evaluated: two systems of one
  enclosure (the second without an \<^verbatim>\<open>enclosure\<close> metric), a system whose
  configuration lacks a job and sits in another enclosure, a system that reuses
  the first logical name, and a trace with a ramp of four benches.
\<close>

definition bench_fans :: Bench where
  "bench_fans =
     \<lparr>job_name = ''avx'',
      get_components = (\<lambda>c. if c = ''fan'' then [''Fan1'', ''Fan2'', ''Fan3''] else [])\<rparr>"

definition bench_bare :: "string \<Rightarrow> Bench" where
  "bench_bare job = \<lparr>job_name = job, get_components = (\<lambda>c. [])\<rparr>"

definition trace_a :: Trace where
  "trace_a =
     \<lparr>filename = ''a.json'', get_name = ''sysA'',
      get_original_config = [''avx'', ''qsort''],
      get_enclosure_serial = ''ENC1'', get_chassis_serial = ''CH1'',
      bench_list = [''avx_1''], bench = (\<lambda>n. bench_fans),
      first_bench_metrics = [''chassis'', ''enclosure'']\<rparr>"

definition trace_b :: Trace where
  "trace_b =
     \<lparr>filename = ''b.json'', get_name = ''sysB'',
      get_original_config = [''qsort'', ''avx''],
      get_enclosure_serial = ''ENC1'', get_chassis_serial = ''CH2'',
      bench_list = [''avx_1''], bench = (\<lambda>n. bench_bare ''avx''),
      first_bench_metrics = [''chassis'']\<rparr>"

definition trace_c :: Trace where
  "trace_c =
     \<lparr>filename = ''c.json'', get_name = ''sysC'',
      get_original_config = [''avx''],
      get_enclosure_serial = ''ENC2'', get_chassis_serial = ''CH3'',
      bench_list = [''avx_1''], bench = (\<lambda>n. bench_bare ''avx''),
      first_bench_metrics = [''chassis'', ''enclosure'']\<rparr>"

definition trace_d :: Trace where
  "trace_d =
     \<lparr>filename = ''d.json'', get_name = ''sysA'',
      get_original_config = [''avx'', ''qsort''],
      get_enclosure_serial = ''ENC1'', get_chassis_serial = ''CH4'',
      bench_list = [''avx_1''], bench = (\<lambda>n. bench_bare ''avx''),
      first_bench_metrics = [''chassis'', ''enclosure'']\<rparr>"

definition trace_ramp :: Trace where
  "trace_ramp =
     \<lparr>filename = ''ramp.json'', get_name = ''ramp'',
      get_original_config = [''avx'', ''qsort'', ''memrate''],
      get_enclosure_serial = [], get_chassis_serial = ''CH5'',
      bench_list = [''3_avx'', ''1_avx'', ''4_memrate'', ''2_qsort''],
      bench = (\<lambda>n. if n = ''1_avx'' \<or> n = ''3_avx'' then bench_bare ''avx''
                    else if n = ''2_qsort'' then bench_bare ''qsort''
                    else bench_bare ''memrate''),
      first_bench_metrics = []\<rparr>"

definition sample_args :: "Trace list \<Rightarrow> Args" where
  "sample_args ts = \<lparr>traces = ts, no_env = True, same_enclosure = False, outdir = ''out''\<rparr>"

text \<open>A renderer that counts every request as one graph.\<close>

definition one_each :: renderer where
  "one_each = (\<lambda>r. 1)"

subsection \<open>Auxiliary notions for the statements\<close>

text \<open>
  A trace passes the \<^verbatim>\<open>try\<close> block of \<^verbatim>\<open>valid_traces\<close> when its first bench has
  both metrics.
\<close>

definition has_metrics :: "Trace \<Rightarrow> bool" where
  "has_metrics trace \<longleftrightarrow>
     ''chassis'' \<in> set (first_bench_metrics trace)
     \<and> ''enclosure'' \<in> set (first_bench_metrics trace)"

section \<open>Properties\<close>

subsection \<open>Events and counts\<close>

lemma accumulate_issue_Cons:
  "accumulate (issue R r # rest)
   = (R r + fst (accumulate rest), Request r # snd (accumulate rest))"
  by (simp add: issue_def split: prod.split)

lemma accumulate_map_issue:
  "accumulate (map (\<lambda>x. issue R (f x)) xs)
   = (sum_list (map (\<lambda>x. R (f x)) xs), map (\<lambda>x. Request (f x)) xs)"
  by (induction xs) (simp_all add: accumulate_issue_Cons)

lemma requests_append: "requests (es @ fs) = requests es @ requests fs"
  by (induction es rule: requests.induct) simp_all

lemma requests_map_Request: "requests (map (\<lambda>x. Request (f x)) xs) = map f xs"
  by (induction xs) simp_all

subsection \<open>The Compatibility Validator\<close>

text \<open>
  A prefix of traces that pass both checks only extends the list of names.
\<close>

lemma compare_loop_prefix:
  assumes "\<forall>u\<in>set before. config_difference reference u = {}"
    and "distinct (names @ map get_name before)"
  shows "compare_loop (reference # others) (before @ rest) names
         = compare_loop (reference # others) rest (names @ map get_name before)"
  using assms
proof (induction before arbitrary: names)
  case Nil
  then show ?case by simp
next
  case (Cons u before)
  from Cons.prems have step: "compare_loop (reference # others) ((u # before) @ rest) names
      = compare_loop (reference # others) (before @ rest) (names @ [get_name u])"
    by simp
  from Cons.prems have "distinct ((names @ [get_name u]) @ map get_name before)"
    by simp
  with Cons.IH [of "names @ [get_name u]"] Cons.prems step show ?case
    by simp
qed

lemma compare_loop_accepts:
  assumes "\<forall>u\<in>set ts. config_difference reference u = {}"
    and "distinct (map get_name ts)"
  shows "compare_loop (reference # others) ts [] = Inr (map get_name ts)"
  using compare_loop_prefix [of ts reference "[]" others "[]"] assms by simp

lemma compare_loop_mismatch:
  assumes "\<forall>u\<in>set before. config_difference reference u = {}"
    and "distinct (map get_name before)"
    and "config_difference reference t \<noteq> {}"
  shows "compare_loop (reference # others) (before @ t # after) []
         = Inl (Fatal (mismatch_message t))"
  using compare_loop_prefix [of before reference "[]" others "t # after"] assms by simp

lemma compare_loop_duplicate:
  assumes "\<forall>u\<in>set before. config_difference reference u = {}"
    and "distinct (map get_name before)"
    and "config_difference reference t = {}"
    and "get_name t \<in> set (map get_name before)"
  shows "compare_loop (reference # others) (before @ t # after) []
         = Inl (Fatal (duplicate_message t))"
  using compare_loop_prefix [of before reference "[]" others "t # after"] assms by simp

text \<open>
  A list with a repeated key splits at the first element whose key was seen before.
\<close>

lemma first_duplicate:
  assumes "\<not> distinct (map f xs)"
  shows "\<exists>ys x zs. xs = ys @ x # zs \<and> distinct (map f ys) \<and> f x \<in> set (map f ys)"
  using assms
proof (induction xs rule: rev_induct)
  case Nil
  then show ?case by simp
next
  case (snoc x xs)
  show ?case
  proof (cases "distinct (map f xs)")
    case True
    with snoc.prems have "f x \<in> set (map f xs)" by auto
    with True have "xs @ [x] = xs @ x # [] \<and> distinct (map f xs) \<and> f x \<in> set (map f xs)"
      by simp
    then show ?thesis by blast
  next
    case False
    from snoc.IH [OF False] obtain ys y zs
      where "xs = ys @ y # zs" "distinct (map f ys)" "f y \<in> set (map f ys)" by blast
    then have "xs @ [x] = ys @ y # (zs @ [x]) \<and> distinct (map f ys) \<and> f y \<in> set (map f ys)"
      by simp
    then show ?thesis by blast
  qed
qed

lemma compare_traces_duplicate_at:
  assumes "traces args = reference # rest"
    and "\<forall>u\<in>set (traces args). config_difference reference u = {}"
    and split: "traces args = before @ t # after"
    and fresh: "distinct (map get_name before)"
    and seen: "get_name t \<in> set (map get_name before)"
  shows "compare_traces args = Inl (Fatal (duplicate_message t))"
proof -
  from assms(2) have "\<forall>u\<in>set (before @ t # after). config_difference reference u = {}"
    by (simp only: split)
  then have ok: "\<forall>u\<in>set before. config_difference reference u = {}"
    and okt: "config_difference reference t = {}"
    by simp_all
  have "compare_loop (reference # rest) (before @ t # after) []
        = Inl (Fatal (duplicate_message t))"
    using ok fresh okt seen by (rule compare_loop_duplicate)
  moreover have "compare_loop (traces args) (traces args) []
        = compare_loop (reference # rest) (before @ t # after) []"
    by (simp only: split [symmetric] assms(1) [symmetric])
  ultimately show ?thesis
    by (simp only: compare_traces_def sum.case)
qed

text \<open>
  C3. When all configurations are compatible with the reference and two traces
  share a logical name, the validator aborts at the first trace, in input order,
  whose logical name is already in use: the traces before it have pairwise
  distinct names, and the fatal message names that trace's file and the name.
  Such a trace exists wherever the repeated pair stands, and the abort is at it.
\<close>

theorem compare_traces_duplicate:
  assumes "traces args = reference # rest"
    and "\<forall>u\<in>set (traces args). config_difference reference u = {}"
    and "\<not> distinct (map get_name (traces args))"
  shows "(\<exists>before t after. traces args = before @ t # after
            \<and> distinct (map get_name before)
            \<and> get_name t \<in> set (map get_name before))
       \<and> (\<forall>before t after. traces args = before @ t # after
            \<and> distinct (map get_name before)
            \<and> get_name t \<in> set (map get_name before)
            \<longrightarrow> compare_traces args
                  = Inl (Fatal (filename t @ '' is using '' @ [CHR 0x27] @ get_name t
                                @ [CHR 0x27] @ '' as logical_name while it's already in use'')))"
proof (intro conjI allI impI)
  from first_duplicate [OF assms(3)]
  show "\<exists>before t after. traces args = before @ t # after
            \<and> distinct (map get_name before)
            \<and> get_name t \<in> set (map get_name before)"
    by blast
next
  fix before t after
  assume "traces args = before @ t # after
            \<and> distinct (map get_name before)
            \<and> get_name t \<in> set (map get_name before)"
  with compare_traces_duplicate_at [OF assms(1,2), of before t after]
  show "compare_traces args
        = Inl (Fatal (filename t @ '' is using '' @ [CHR 0x27] @ get_name t
                      @ [CHR 0x27] @ '' as logical_name while it's already in use''))"
    by (simp add: duplicate_message_def)
qed

theorem compare_traces_duplicate_witness:
  "compare_traces (sample_args [trace_a, trace_b, trace_d])
   = Inl (Fatal ''d.json is using 'sysA' as logical_name while it's already in use'')"
proof -
  have 1: "traces (sample_args [trace_a, trace_b, trace_d]) = trace_a # [trace_b, trace_d]"
    by (simp add: sample_args_def)
  have 2: "\<forall>u\<in>set (traces (sample_args [trace_a, trace_b, trace_d])).
             config_difference trace_a u = {}"
    by (simp add: sample_args_def config_difference_def trace_a_def trace_b_def trace_d_def
        insert_commute)
  have 3: "\<not> distinct (map get_name (traces (sample_args [trace_a, trace_b, trace_d])))"
    by (simp add: sample_args_def trace_a_def trace_b_def trace_d_def)
  have 4: "traces (sample_args [trace_a, trace_b, trace_d]) = [trace_a, trace_b] @ trace_d # []
           \<and> distinct (map get_name [trace_a, trace_b])
           \<and> get_name trace_d \<in> set (map get_name [trace_a, trace_b])"
    by (simp add: sample_args_def trace_a_def trace_b_def trace_d_def)
  from compare_traces_duplicate [OF 1 2 3] 4
  have "compare_traces (sample_args [trace_a, trace_b, trace_d])
        = Inl (Fatal (filename trace_d @ '' is using '' @ [CHR 0x27] @ get_name trace_d
                      @ [CHR 0x27] @ '' as logical_name while it's already in use''))"
    by blast
  then show ?thesis by (simp add: trace_d_def)
qed

text \<open>
  C4. When every trace has the entries of the reference's configuration (equal
  configurations in particular) and the logical names are pairwise distinct, the
  validator returns without a fatal error; a single trace is such a set.
\<close>

theorem compare_traces_accepts:
  assumes "traces args = reference # rest"
    and "\<forall>t\<in>set rest. set (get_original_config t) = set (get_original_config reference)"
    and "distinct (map get_name (traces args))"
  shows "compare_traces args = Inr ()"
proof -
  from assms(2) have "\<forall>u\<in>set (reference # rest). config_difference reference u = {}"
    by (simp add: config_difference_def)
  moreover from assms(1,3) have "distinct (map get_name (reference # rest))"
    by simp
  ultimately have "compare_loop (reference # rest) (reference # rest) []
                   = Inr (map get_name (reference # rest))"
    by (rule compare_loop_accepts)
  then show ?thesis
    unfolding compare_traces_def assms(1) by simp
qed

theorem compare_traces_accepts_witness:
  "compare_traces (sample_args [trace_a, trace_b]) = Inr ()
   \<and> compare_traces (sample_args [trace_a]) = Inr ()"
proof
  have 1: "traces (sample_args [trace_a, trace_b]) = trace_a # [trace_b]"
    by (simp add: sample_args_def)
  have 2: "\<forall>t\<in>set [trace_b]. set (get_original_config t) = set (get_original_config trace_a)"
    by (simp add: trace_a_def trace_b_def insert_commute)
  have 3: "distinct (map get_name (traces (sample_args [trace_a, trace_b])))"
    by (simp add: sample_args_def trace_a_def trace_b_def)
  show "compare_traces (sample_args [trace_a, trace_b]) = Inr ()"
    by (rule compare_traces_accepts [OF 1 2 3])
next
  have 1: "traces (sample_args [trace_a]) = trace_a # []"
    by (simp add: sample_args_def)
  have 2: "\<forall>t\<in>set []. set (get_original_config t) = set (get_original_config trace_a)"
    by simp
  have 3: "distinct (map get_name (traces (sample_args [trace_a])))"
    by (simp add: sample_args_def)
  show "compare_traces (sample_args [trace_a]) = Inr ()"
    by (rule compare_traces_accepts [OF 1 2 3])
qed

subsection \<open>The per-bench dispatchers\<close>

lemma yerr_graph_fun:
  "yerr_graph R trace bench_name component_type
   = (\<lambda>fan. issue R (YerrGraph (filename trace) bench_name component_type fan))"
  by (rule ext) (simp add: yerr_graph_def)

lemma graph_fans_none:
  assumes "get_components (bench trace bench_name) ''fan'' = []"
  shows "graph_fans R trace bench_name = (0, [Print (bench_name @ '': no fans'')])"
  using assms by (simp add: graph_fans_def)

lemma graph_fans_some:
  assumes "get_components (bench trace bench_name) ''fan'' \<noteq> []"
  shows "graph_fans R trace bench_name =
    (R (GenericGraph (filename trace) bench_name ''fan'' ''Fans speed'' (Some THERMAL))
     + (R (GenericGraph (filename trace) bench_name ''fan'' ''Fans speed'' (Some POWER))
     + sum_list (map (\<lambda>fan. R (YerrGraph (filename trace) bench_name ''fan'' fan))
          (get_components (bench trace bench_name) ''fan''))),
     Request (GenericGraph (filename trace) bench_name ''fan'' ''Fans speed'' (Some THERMAL))
     # Request (GenericGraph (filename trace) bench_name ''fan'' ''Fans speed'' (Some POWER))
     # map (\<lambda>fan. Request (YerrGraph (filename trace) bench_name ''fan'' fan))
          (get_components (bench trace bench_name) ''fan''))"
  using assms
  by (simp add: graph_fans_def Let_def generic_graph_def yerr_graph_fun
      accumulate_issue_Cons accumulate_map_issue)

lemma graph_cpu_eq:
  "graph_cpu R trace bench_name =
    (sum_list (map R
       [GenericGraph (filename trace) bench_name ''watt_core'' ''Core power consumption'' None,
        GenericGraph (filename trace) bench_name ''watt_core'' ''Core power consumption''
          (Some THERMAL),
        GenericGraph (filename trace) bench_name ''watt_core'' ''Core power consumption''
          (Some POWER),
        GenericGraph (filename trace) bench_name ''package'' ''Package power consumption'' None,
        GenericGraph (filename trace) bench_name ''package'' ''Package power consumption''
          (Some THERMAL),
        GenericGraph (filename trace) bench_name ''package'' ''Package power consumption''
          (Some POWER),
        GenericGraph (filename trace) bench_name ''mhz_core'' ''Core frequency'' None,
        GenericGraph (filename trace) bench_name ''mhz_core'' ''Core frequency'' (Some THERMAL),
        GenericGraph (filename trace) bench_name ''mhz_core'' ''Core frequency'' (Some POWER)]),
     map Request
       [GenericGraph (filename trace) bench_name ''watt_core'' ''Core power consumption'' None,
        GenericGraph (filename trace) bench_name ''watt_core'' ''Core power consumption''
          (Some THERMAL),
        GenericGraph (filename trace) bench_name ''watt_core'' ''Core power consumption''
          (Some POWER),
        GenericGraph (filename trace) bench_name ''package'' ''Package power consumption'' None,
        GenericGraph (filename trace) bench_name ''package'' ''Package power consumption''
          (Some THERMAL),
        GenericGraph (filename trace) bench_name ''package'' ''Package power consumption''
          (Some POWER),
        GenericGraph (filename trace) bench_name ''mhz_core'' ''Core frequency'' None,
        GenericGraph (filename trace) bench_name ''mhz_core'' ''Core frequency'' (Some THERMAL),
        GenericGraph (filename trace) bench_name ''mhz_core'' ''Core frequency'' (Some POWER)])"
  by (simp add: graph_cpu_def cpu_graphs_def generic_graph_def accumulate_issue_Cons add.assoc)

lemma graph_thermal_eq:
  "graph_thermal R trace bench_name =
    (R (GenericGraph (filename trace) bench_name ''temp'' ''Temperatures'' None),
     [Request (GenericGraph (filename trace) bench_name ''temp'' ''Temperatures'' None)])"
  by (simp add: graph_thermal_def generic_graph_def issue_def)

text \<open>
  C8. For a bench without fan components \<^verbatim>\<open>graph_fans\<close> returns 0 and prints the
  "no fans" line, with no request. For a bench with fans it issues one combined
  fan-speed request for the thermal axis, one for the power axis, and one
  error-bar request per fan, in that order: 2 + k requests for k fans. Its
  return value is the sum of what the renderer returned for these requests,
  which is 2 + k when the renderer counts each request as one graph.
\<close>

theorem graph_fans_requests:
  "(get_components (bench trace bench_name) ''fan'' = [] \<longrightarrow>
      graph_fans R trace bench_name = (0, [Print (bench_name @ '': no fans'')]))
   \<and> (get_components (bench trace bench_name) ''fan'' \<noteq> [] \<longrightarrow>
      requests (snd (graph_fans R trace bench_name))
        = GenericGraph (filename trace) bench_name ''fan'' ''Fans speed'' (Some THERMAL)
          # GenericGraph (filename trace) bench_name ''fan'' ''Fans speed'' (Some POWER)
          # map (YerrGraph (filename trace) bench_name ''fan'')
              (get_components (bench trace bench_name) ''fan'')
      \<and> length (requests (snd (graph_fans R trace bench_name)))
          = 2 + length (get_components (bench trace bench_name) ''fan'')
      \<and> fst (graph_fans R trace bench_name)
          = sum_list (map R (requests (snd (graph_fans R trace bench_name))))
      \<and> ((\<forall>r. R r = 1) \<longrightarrow>
          fst (graph_fans R trace bench_name)
            = 2 + length (get_components (bench trace bench_name) ''fan'')))"
proof (intro conjI impI)
  assume "get_components (bench trace bench_name) ''fan'' = []"
  then show "graph_fans R trace bench_name = (0, [Print (bench_name @ '': no fans'')])"
    by (rule graph_fans_none)
next
  assume some: "get_components (bench trace bench_name) ''fan'' \<noteq> []"
  show reqs: "requests (snd (graph_fans R trace bench_name))
        = GenericGraph (filename trace) bench_name ''fan'' ''Fans speed'' (Some THERMAL)
          # GenericGraph (filename trace) bench_name ''fan'' ''Fans speed'' (Some POWER)
          # map (YerrGraph (filename trace) bench_name ''fan'')
              (get_components (bench trace bench_name) ''fan'')"
    by (simp add: graph_fans_some [OF some] requests_map_Request)
  show "length (requests (snd (graph_fans R trace bench_name)))
          = 2 + length (get_components (bench trace bench_name) ''fan'')"
    by (simp add: reqs)
  show "fst (graph_fans R trace bench_name)
          = sum_list (map R (requests (snd (graph_fans R trace bench_name))))"
    by (simp add: reqs) (simp add: graph_fans_some [OF some] comp_def)
  assume "\<forall>r. R r = 1"
  then show "fst (graph_fans R trace bench_name)
            = 2 + length (get_components (bench trace bench_name) ''fan'')"
    by (simp add: graph_fans_some [OF some] sum_list_triv)
qed

theorem graph_fans_requests_witness:
  "graph_fans one_each trace_b ''avx_1'' = (0, [Print ''avx_1: no fans''])
   \<and> length (requests (snd (graph_fans one_each trace_a ''avx_1''))) = 5
   \<and> fst (graph_fans one_each trace_a ''avx_1'') = 5"
proof -
  have none: "get_components (bench trace_b ''avx_1'') ''fan'' = []"
    by (simp add: trace_b_def bench_bare_def)
  have some: "get_components (bench trace_a ''avx_1'') ''fan'' \<noteq> []"
    and three: "length (get_components (bench trace_a ''avx_1'') ''fan'') = 3"
    by (simp_all add: trace_a_def bench_fans_def)
  have unit: "\<forall>r. one_each r = 1"
    by (simp add: one_each_def)
  from graph_fans_requests [of trace_b "''avx_1''" one_each] none
  have "graph_fans one_each trace_b ''avx_1'' = (0, [Print (''avx_1'' @ '': no fans'')])"
    by blast
  moreover from graph_fans_requests [of trace_a "''avx_1''" one_each] some unit
  have "length (requests (snd (graph_fans one_each trace_a ''avx_1'')))
          = 2 + length (get_components (bench trace_a ''avx_1'') ''fan'')"
    and "fst (graph_fans one_each trace_a ''avx_1'')
          = 2 + length (get_components (bench trace_a ''avx_1'') ''fan'')"
    by blast+
  ultimately show ?thesis
    by (simp add: three)
qed

text \<open>
  C9. For every trace and bench name \<^verbatim>\<open>graph_cpu\<close> issues the same nine requests:
  core power, package power and core frequency, each with no secondary axis, the
  thermal axis and the power axis. Nothing of the bench is read, so its
  components play no part. The return value is the sum of what the renderer
  returned for the nine requests: 9 when it counts each request as one graph.
\<close>

theorem graph_cpu_requests:
  "requests (snd (graph_cpu R trace bench_name))
     = [GenericGraph (filename trace) bench_name ''watt_core'' ''Core power consumption'' None,
        GenericGraph (filename trace) bench_name ''watt_core'' ''Core power consumption''
          (Some THERMAL),
        GenericGraph (filename trace) bench_name ''watt_core'' ''Core power consumption''
          (Some POWER),
        GenericGraph (filename trace) bench_name ''package'' ''Package power consumption'' None,
        GenericGraph (filename trace) bench_name ''package'' ''Package power consumption''
          (Some THERMAL),
        GenericGraph (filename trace) bench_name ''package'' ''Package power consumption''
          (Some POWER),
        GenericGraph (filename trace) bench_name ''mhz_core'' ''Core frequency'' None,
        GenericGraph (filename trace) bench_name ''mhz_core'' ''Core frequency'' (Some THERMAL),
        GenericGraph (filename trace) bench_name ''mhz_core'' ''Core frequency'' (Some POWER)]
   \<and> length (requests (snd (graph_cpu R trace bench_name))) = 9
   \<and> fst (graph_cpu R trace bench_name)
       = sum_list (map R (requests (snd (graph_cpu R trace bench_name))))
   \<and> ((\<forall>r. R r = 1) \<longrightarrow> fst (graph_cpu R trace bench_name) = 9)"
  by (simp add: graph_cpu_eq)

theorem graph_cpu_requests_witness:
  "fst (graph_cpu one_each trace_a ''avx_1'') = 9
   \<and> fst (graph_cpu one_each trace_b ''avx_1'') = 9"
proof -
  have unit: "\<forall>r. one_each r = 1"
    by (simp add: one_each_def)
  from graph_cpu_requests [of one_each trace_a "''avx_1''"] unit
  have "fst (graph_cpu one_each trace_a ''avx_1'') = 9"
    by blast
  moreover from graph_cpu_requests [of one_each trace_b "''avx_1''"] unit
  have "fst (graph_cpu one_each trace_b ''avx_1'') = 9"
    by blast
  ultimately show ?thesis ..
qed

subsection \<open>The Enclosure Context Resolver\<close>

lemma detect_enclosure_traces: "traces (fst (detect_enclosure args reference)) = traces args"
  by (simp add: detect_enclosure_def Let_def)

lemma count_list_all: "count_list (map P xs) True = length xs \<longleftrightarrow> (\<forall>x\<in>set xs. P x)"
proof (induction xs)
  case Nil
  then show ?case by simp
next
  case (Cons x xs)
  have "count_list (map P xs) True \<le> length xs"
    using count_le_length [of "map P xs" True] by simp
  with Cons show ?case by auto
qed

lemma graph_environment_enabled:
  assumes "traces args = reference # rest" and "no_env args"
  shows "graph_environment R args =
     Inr (fst (enclosure_gate R (fst (detect_enclosure args reference)) reference)
          + fst (accumulate (map (dispatch_trace R (fst (detect_enclosure args reference)))
                               (traces args))),
          fst (detect_enclosure args reference),
          snd (detect_enclosure args reference)
          @ snd (enclosure_gate R (fst (detect_enclosure args reference)) reference)
          @ snd (accumulate (map (dispatch_trace R (fst (detect_enclosure args reference)))
                               (traces args))))"
  using assms
  by (simp add: graph_environment_def case_prod_beta detect_enclosure_traces)

lemma graph_environment_disabled:
  assumes "\<not> no_env args"
  shows "graph_environment R args = Inr (0, args, [Print ''environment: disabled by user''])"
  using assms by (simp add: graph_environment_def)

text \<open>
  C5. Lines 130 to 138 of \<^verbatim>\<open>graph_environment\<close>, which run when the user has not
  disabled the environment graphs: if the reference trace's enclosure serial is
  not empty and every trace reports that serial, \<^verbatim>\<open>same_enclosure\<close> is set to true
  and the notice with the serial is printed, whatever the user's value was; if
  some trace reports another serial, the arguments are left as they were and
  nothing is printed. \<^verbatim>\<open>graph_environment\<close> goes on with the arguments and the
  notice of this step.
\<close>

theorem enclosure_auto_detection:
  assumes "traces args = reference # rest"
  shows "(get_enclosure_serial reference \<noteq> []
          \<and> (\<forall>t\<in>set (traces args). get_enclosure_serial t = get_enclosure_serial reference)
          \<longrightarrow> same_enclosure (fst (detect_enclosure args reference))
              \<and> snd (detect_enclosure args reference)
                  = [Print (''environment: All traces are from the same enclosure (''
                            @ get_enclosure_serial reference
                            @ ''), enabling --same-enclosure feature'')])
       \<and> ((\<exists>t\<in>set (traces args). get_enclosure_serial t \<noteq> get_enclosure_serial reference)
          \<longrightarrow> detect_enclosure args reference = (args, []))
       \<and> (no_env args \<longrightarrow>
           (\<exists>n es. graph_environment R args
                     = Inr (n, fst (detect_enclosure args reference),
                            snd (detect_enclosure args reference) @ es)))"
proof (intro conjI impI)
  assume "get_enclosure_serial reference \<noteq> []
          \<and> (\<forall>t\<in>set (traces args). get_enclosure_serial t = get_enclosure_serial reference)"
  then have "detect_enclosure args reference
     = (args\<lparr>same_enclosure := True\<rparr>,
        [Print (''environment: All traces are from the same enclosure (''
                @ get_enclosure_serial reference @ ''), enabling --same-enclosure feature'')])"
    by (simp add: detect_enclosure_def Let_def count_list_all)
  then show "same_enclosure (fst (detect_enclosure args reference))"
    and "snd (detect_enclosure args reference)
                  = [Print (''environment: All traces are from the same enclosure (''
                            @ get_enclosure_serial reference
                            @ ''), enabling --same-enclosure feature'')]"
    by simp_all
next
  assume "\<exists>t\<in>set (traces args). get_enclosure_serial t \<noteq> get_enclosure_serial reference"
  then have "\<not> (\<forall>t\<in>set (traces args). get_enclosure_serial t = get_enclosure_serial reference)"
    by blast
  then show "detect_enclosure args reference = (args, [])"
    by (auto simp add: detect_enclosure_def Let_def count_list_all)
next
  assume "no_env args"
  with assms show "\<exists>n es. graph_environment R args
                     = Inr (n, fst (detect_enclosure args reference),
                            snd (detect_enclosure args reference) @ es)"
    by (simp add: graph_environment_enabled)
qed

theorem enclosure_auto_detection_witness:
  "\<not> same_enclosure (sample_args [trace_a, trace_b])
   \<and> same_enclosure (fst (detect_enclosure (sample_args [trace_a, trace_b]) trace_a))
   \<and> snd (detect_enclosure (sample_args [trace_a, trace_b]) trace_a)
       = [Print (''environment: All traces are from the same enclosure (ENC1), ''
                 @ ''enabling --same-enclosure feature'')]
   \<and> detect_enclosure (sample_args [trace_a, trace_c]) trace_a
       = (sample_args [trace_a, trace_c], [])"
proof -
  have 1: "traces (sample_args [trace_a, trace_b]) = trace_a # [trace_b]"
    and 2: "traces (sample_args [trace_a, trace_c]) = trace_a # [trace_c]"
    by (simp_all add: sample_args_def)
  have same: "get_enclosure_serial trace_a \<noteq> []
          \<and> (\<forall>t\<in>set (traces (sample_args [trace_a, trace_b])).
                get_enclosure_serial t = get_enclosure_serial trace_a)"
    by (simp add: sample_args_def trace_a_def trace_b_def)
  have other: "\<exists>t\<in>set (traces (sample_args [trace_a, trace_c])).
                 get_enclosure_serial t \<noteq> get_enclosure_serial trace_a"
    by (simp add: sample_args_def trace_a_def trace_c_def)
  have off: "\<not> same_enclosure (sample_args [trace_a, trace_b])"
    by (simp add: sample_args_def)
  have serial: "get_enclosure_serial trace_a = ''ENC1''"
    by (simp add: trace_a_def)
  from enclosure_auto_detection [OF 1, of one_each] same
  have "same_enclosure (fst (detect_enclosure (sample_args [trace_a, trace_b]) trace_a))
        \<and> snd (detect_enclosure (sample_args [trace_a, trace_b]) trace_a)
            = [Print (''environment: All traces are from the same enclosure (''
                      @ get_enclosure_serial trace_a
                      @ ''), enabling --same-enclosure feature'')]"
    by blast
  moreover from enclosure_auto_detection [OF 2, of one_each] other
  have "detect_enclosure (sample_args [trace_a, trace_c]) trace_a
        = (sample_args [trace_a, trace_c], [])"
    by blast
  ultimately show ?thesis
    using off by (simp add: serial)
qed

subsection \<open>The validity gate\<close>

lemma missing_message_nonempty: "missing_message metric trace \<noteq> []"
  by (simp add: missing_message_def)

lemma missing_message_not_unique: "missing_message metric trace \<noteq> not_unique_message"
  by (simp add: missing_message_def not_unique_message_def)

lemma valid_loop_empty: "valid_loop ts = [] \<longleftrightarrow> (\<forall>t\<in>set ts. has_metrics t)"
  by (induction ts) (auto simp: has_metrics_def missing_message_nonempty)

lemma not_unique_message_nonempty: "[] \<noteq> not_unique_message"
  by (simp add: not_unique_message_def)

lemma valid_loop_not_unique: "valid_loop ts \<noteq> not_unique_message"
  by (induction ts) (auto simp: missing_message_not_unique not_unique_message_nonempty)

lemma valid_loop_first_missing:
  assumes "\<forall>u\<in>set before. has_metrics u" and "\<not> has_metrics t"
  shows "valid_loop (before @ t # after)
         = missing_message (if ''chassis'' \<notin> set (first_bench_metrics t) then ''chassis''
                            else ''enclosure'') t"
  using assms by (induction before) (auto simp: has_metrics_def)

lemma valid_traces_loop: "valid_traces args = valid_loop (traces args)"
  by (simp add: valid_traces_def)

lemma requests_accumulate_free:
  assumes "\<forall>p\<in>set xs. r \<notin> set (requests (snd p))"
  shows "r \<notin> set (requests (snd (accumulate xs)))"
  using assms
  by (induction xs rule: accumulate.induct) (auto simp: requests_append split: prod.splits)

lemma graph_fans_no_enclosure:
  "EnclosureGraph b \<notin> set (requests (snd (graph_fans R trace bench_name)))"
  by (cases "get_components (bench trace bench_name) ''fan'' = []")
     (auto simp: graph_fans_none graph_fans_some requests_map_Request)

lemma graph_cpu_no_enclosure:
  "EnclosureGraph b \<notin> set (requests (snd (graph_cpu R trace bench_name)))"
  by (simp add: graph_cpu_eq)

lemma graph_thermal_no_enclosure:
  "EnclosureGraph b \<notin> set (requests (snd (graph_thermal R trace bench_name)))"
  by (simp add: graph_thermal_eq)

lemma dispatch_trace_no_enclosure:
  "EnclosureGraph b \<notin> set (requests (snd (dispatch_trace R args trace)))"
proof -
  have "EnclosureGraph b \<notin> set (requests (snd (accumulate
             (concat
                (map (\<lambda>bench_name.
                        [graph_fans R trace bench_name,
                         graph_cpu R trace bench_name,
                         graph_thermal R trace bench_name])
                     (sort (bench_list trace)))))))"
    by (rule requests_accumulate_free)
       (auto simp: graph_fans_no_enclosure graph_cpu_no_enclosure graph_thermal_no_enclosure)
  then show ?thesis
    by (simp add: dispatch_trace_def Let_def case_prod_beta)
qed

lemma dispatch_traces_no_enclosure:
  "EnclosureGraph b \<notin> set (requests (snd (accumulate (map (dispatch_trace R args) ts))))"
  by (rule requests_accumulate_free) (auto simp: dispatch_trace_no_enclosure)

lemma graph_enclosure_fun: "graph_enclosure R = (\<lambda>bench_name. issue R (EnclosureGraph bench_name))"
  by (rule ext) (simp add: graph_enclosure_def)

lemma enclosure_gate_eq:
  assumes "same_enclosure args"
  shows "enclosure_gate R args reference
         = (if \<forall>t\<in>set (traces args). has_metrics t
            then (sum_list (map (\<lambda>b. R (EnclosureGraph b)) (sort (bench_list reference))),
                  map (\<lambda>b. Request (EnclosureGraph b)) (sort (bench_list reference)))
            else (0, [Print (valid_loop (traces args))]))"
  using assms
  by (simp add: enclosure_gate_def Let_def valid_traces_loop valid_loop_empty
      graph_enclosure_fun accumulate_map_issue)

text \<open>
  C6. \<^verbatim>\<open>valid_traces\<close> compares the length of the list of chassis serials, one per
  trace, with the number of traces, so the check always passes: the function
  never returns the "chassis are not unique" message, and it returns the empty
  message exactly when every trace has the \<^verbatim>\<open>chassis\<close> and \<^verbatim>\<open>enclosure\<close> metrics
  on its first bench. With the same-enclosure preference active, the
  environment-comparison requests are one per sorted bench name of the reference
  when all traces have both metrics, and none otherwise.
\<close>

theorem chassis_count_check:
  "valid_traces args \<noteq> ''environment: chassis are not unique, disabling same-enclosure print''
   \<and> (valid_traces args = [] \<longleftrightarrow> (\<forall>t\<in>set (traces args). has_metrics t))
   \<and> (same_enclosure args \<longrightarrow>
        requests (snd (enclosure_gate R args reference))
        = (if \<forall>t\<in>set (traces args). has_metrics t
           then map EnclosureGraph (sort (bench_list reference)) else []))"
proof (intro conjI impI)
  from valid_loop_not_unique [of "traces args"]
  show "valid_traces args
        \<noteq> ''environment: chassis are not unique, disabling same-enclosure print''"
    by (simp add: valid_traces_loop not_unique_message_def)
  show "valid_traces args = [] \<longleftrightarrow> (\<forall>t\<in>set (traces args). has_metrics t)"
    by (simp add: valid_traces_loop valid_loop_empty)
  assume "same_enclosure args"
  then show "requests (snd (enclosure_gate R args reference))
        = (if \<forall>t\<in>set (traces args). has_metrics t
           then map EnclosureGraph (sort (bench_list reference)) else [])"
    by (simp add: enclosure_gate_eq requests_map_Request)
qed

theorem chassis_count_check_witness:
  "valid_traces (sample_args [trace_a, trace_d]) = []
   \<and> requests (snd (enclosure_gate one_each
                      ((sample_args [trace_a, trace_d])\<lparr>same_enclosure := True\<rparr>) trace_a))
       = [EnclosureGraph ''avx_1'']
   \<and> requests (snd (enclosure_gate one_each
                      ((sample_args [trace_a, trace_b])\<lparr>same_enclosure := True\<rparr>) trace_a))
       = []"
proof -
  have all: "\<forall>t\<in>set (traces (sample_args [trace_a, trace_d])). has_metrics t"
    and all': "\<forall>t\<in>set (traces ((sample_args [trace_a, trace_d])\<lparr>same_enclosure := True\<rparr>)).
                 has_metrics t"
    by (simp_all add: sample_args_def has_metrics_def trace_a_def trace_d_def)
  have some: "\<not> (\<forall>t\<in>set (traces ((sample_args [trace_a, trace_b])\<lparr>same_enclosure := True\<rparr>)).
                   has_metrics t)"
    by (simp add: sample_args_def has_metrics_def trace_b_def)
  have on: "same_enclosure ((sample_args [trace_a, trace_d])\<lparr>same_enclosure := True\<rparr>)"
    and on': "same_enclosure ((sample_args [trace_a, trace_b])\<lparr>same_enclosure := True\<rparr>)"
    by simp_all
  have benches: "sort (bench_list trace_a) = [''avx_1'']"
    by (simp add: trace_a_def)
  from chassis_count_check [of "sample_args [trace_a, trace_d]" one_each trace_a] all
  have "valid_traces (sample_args [trace_a, trace_d]) = []"
    by blast
  moreover
  from chassis_count_check
    [of "(sample_args [trace_a, trace_d])\<lparr>same_enclosure := True\<rparr>" one_each trace_a] on
  have "requests (snd (enclosure_gate one_each
                      ((sample_args [trace_a, trace_d])\<lparr>same_enclosure := True\<rparr>) trace_a))
       = (if \<forall>t\<in>set (traces ((sample_args [trace_a, trace_d])\<lparr>same_enclosure := True\<rparr>)).
               has_metrics t
          then map EnclosureGraph (sort (bench_list trace_a)) else [])"
    by blast
  then have "requests (snd (enclosure_gate one_each
                      ((sample_args [trace_a, trace_d])\<lparr>same_enclosure := True\<rparr>) trace_a))
       = map EnclosureGraph (sort (bench_list trace_a))"
    by (simp only: if_P [OF all'])
  moreover
  from chassis_count_check
    [of "(sample_args [trace_a, trace_b])\<lparr>same_enclosure := True\<rparr>" one_each trace_a] on'
  have "requests (snd (enclosure_gate one_each
                      ((sample_args [trace_a, trace_b])\<lparr>same_enclosure := True\<rparr>) trace_a))
       = (if \<forall>t\<in>set (traces ((sample_args [trace_a, trace_b])\<lparr>same_enclosure := True\<rparr>)).
               has_metrics t
          then map EnclosureGraph (sort (bench_list trace_a)) else [])"
    by blast
  then have "requests (snd (enclosure_gate one_each
                      ((sample_args [trace_a, trace_b])\<lparr>same_enclosure := True\<rparr>) trace_a))
       = []"
    by (simp only: if_not_P [OF some])
  ultimately show ?thesis
    by (simp add: benches)
qed

subsection \<open>The run as a whole\<close>

lemma graph_environment_result:
  assumes "traces args = reference # rest"
  shows "\<exists>n args' es. graph_environment R args = Inr (n, args', es)
           \<and> traces args' = traces args"
proof (cases "no_env args")
  case True
  from graph_environment_enabled [OF assms True, of R] show ?thesis
    by (simp add: detect_enclosure_traces)
next
  case False
  then show ?thesis by (simp add: graph_environment_disabled)
qed

lemma compare_traces_cong: "traces a = traces b \<Longrightarrow> compare_traces a = compare_traces b"
  by (simp add: compare_traces_def)

lemma render_traces_abort:
  assumes "traces args = reference # rest" and "compare_traces args = Inl e"
  shows "\<exists>n args' es. graph_environment R args = Inr (n, args', es)
           \<and> render_traces R args = (Inl e, [InitMatplotlib, Mkdir (outdir args)] @ es)"
proof -
  from graph_environment_result [OF assms(1), of R] obtain n args' es
    where env: "graph_environment R args = Inr (n, args', es)"
      and same: "traces args' = traces args"
    by blast
  from same assms(2) have "compare_traces args' = Inl e"
    by (simp add: compare_traces_cong [of args' args])
  with env have "render_traces R args = (Inl e, [InitMatplotlib, Mkdir (outdir args)] @ es)"
    by (simp add: render_traces_def)
  with env show ?thesis by blast
qed

lemma scaling_graph_fun:
  "(\<lambda>job. scaling_graph R job names) = (\<lambda>job. issue R (ScalingGraph job names))"
  by (rule ext) (simp add: scaling_graph_def)

lemma individual_graph_fun:
  "(\<lambda>job. individual_graph R job names) = (\<lambda>job. issue R (IndividualGraph job names))"
  by (rule ext) (simp add: individual_graph_def)

lemma plot_graphs_eq:
  assumes "traces args = reference # rest"
  shows "plot_graphs R args =
     Inr (sum_list (map (\<lambda>job. R (ScalingGraph job (map get_name (traces args))))
                        (collect_jobs (job_names reference) []))
          + sum_list (map (\<lambda>job. R (IndividualGraph job (map get_name (traces args))))
                          (collect_jobs (job_names reference) [])),
          [Print (''Scaling: rendering ''
                  @ string_of_nat (length (collect_jobs (job_names reference) [])) @ '' jobs'')]
          @ map (\<lambda>job. Request (ScalingGraph job (map get_name (traces args))))
                (collect_jobs (job_names reference) [])
          @ [Print (''Individual: rendering ''
                    @ string_of_nat (length (collect_jobs (job_names reference) [])) @ '' jobs'')]
          @ map (\<lambda>job. Request (IndividualGraph job (map get_name (traces args))))
                (collect_jobs (job_names reference) []))"
  by (simp add: plot_graphs_def assms Let_def scaling_graph_fun individual_graph_fun
      accumulate_map_issue)

lemma plot_graphs_cong: "traces a = traces b \<Longrightarrow> plot_graphs R a = plot_graphs R b"
  by (cases "traces b") (simp_all add: plot_graphs_def)

lemma render_traces_complete:
  assumes "traces args = reference # rest"
    and "graph_environment R args = Inr (n, args', es)"
    and "compare_traces args = Inr ()"
  shows "\<exists>m fs. plot_graphs R args = Inr (m, fs)
           \<and> render_traces R args
               = (Inr (n + m),
                  [InitMatplotlib, Mkdir (outdir args)] @ es @ fs
                  @ [Print (string_of_nat (n + m) @ '' graphs can be found in ''
                            @ [CHR 0x27] @ path_str (outdir args) @ [CHR 0x27] @ '' directory'')])"
proof -
  from graph_environment_result [OF assms(1), of R] assms(2)
  have same: "traces args' = traces args" by auto
  from plot_graphs_eq [OF assms(1), of R] obtain m fs
    where plot: "plot_graphs R args = Inr (m, fs)" by blast
  from same plot have plot': "plot_graphs R args' = Inr (m, fs)"
    by (simp add: plot_graphs_cong [of args' args])
  from same assms(3) have "compare_traces args' = Inr ()"
    by (simp add: compare_traces_cong [of args' args])
  with assms(2) plot' have "render_traces R args
               = (Inr (n + m),
                  [InitMatplotlib, Mkdir (outdir args)] @ es @ fs
                  @ [Print (string_of_nat (n + m) @ '' graphs can be found in ''
                            @ [CHR 0x27] @ path_str (outdir args) @ [CHR 0x27] @ '' directory'')])"
    by (simp add: render_traces_def)
  with plot show ?thesis by blast
qed

subsection \<open>The Job Identity Aggregator\<close>

lemma collect_jobs_first_occurrences:
  "collect_jobs xs jobs = jobs @ first_occurrences [x \<leftarrow> xs. x \<notin> set jobs]"
proof (induction xs arbitrary: jobs)
  case Nil
  then show ?case by simp
next
  case (Cons x xs)
  show ?case
  proof (cases "x \<in> set jobs")
    case True
    with Cons.IH [of jobs] show ?thesis by simp
  next
    case False
    have "[y \<leftarrow> xs. y \<notin> set (jobs @ [x])] = [y \<leftarrow> [y \<leftarrow> xs. y \<notin> set jobs]. y \<noteq> x]"
      by (induction xs) auto
    with False Cons.IH [of "jobs @ [x]"] show ?thesis by simp
  qed
qed

lemma set_first_occurrences: "set (first_occurrences xs) = set xs"
  by (induction xs rule: first_occurrences.induct) auto

lemma distinct_first_occurrences: "distinct (first_occurrences xs)"
  by (induction xs rule: first_occurrences.induct) (auto simp: set_first_occurrences)

text \<open>
  C10. \<^verbatim>\<open>plot_graphs\<close> reads the job names of the reference trace's benches in
  sorted bench-name order and keeps the first occurrence of each: the list has no
  duplicates, holds every job name, and is the specification's
  \<open>first_occurrences\<close> of the sequence. The sequence A, B, A, C with distinct
  A, B, C gives A, B, C. The scaling requests and then the individual requests
  are issued for exactly that list, in its order.
\<close>

theorem job_identities:
  assumes "traces args = reference # rest"
  shows "collect_jobs (job_names reference) []
           = first_occurrences
               (map (\<lambda>bench_name. job_name (bench reference bench_name))
                    (sort (bench_list reference)))
       \<and> distinct (collect_jobs (job_names reference) [])
       \<and> set (collect_jobs (job_names reference) []) = set (job_names reference)
       \<and> (job_names reference = [A, B, A, C] \<and> distinct [A, B, C]
            \<longrightarrow> collect_jobs (job_names reference) [] = [A, B, C])
       \<and> (\<exists>n. plot_graphs R args =
            Inr (n,
              [Print (''Scaling: rendering ''
                      @ string_of_nat (length (collect_jobs (job_names reference) []))
                      @ '' jobs'')]
              @ map (\<lambda>job. Request (ScalingGraph job (map get_name (traces args))))
                    (collect_jobs (job_names reference) [])
              @ [Print (''Individual: rendering ''
                        @ string_of_nat (length (collect_jobs (job_names reference) []))
                        @ '' jobs'')]
              @ map (\<lambda>job. Request (IndividualGraph job (map get_name (traces args))))
                    (collect_jobs (job_names reference) [])))"
proof (intro conjI impI)
  have eq: "collect_jobs (job_names reference) [] = first_occurrences (job_names reference)"
    by (simp add: collect_jobs_first_occurrences)
  then show "collect_jobs (job_names reference) []
           = first_occurrences
               (map (\<lambda>bench_name. job_name (bench reference bench_name))
                    (sort (bench_list reference)))"
    by (simp add: job_names_def)
  show "distinct (collect_jobs (job_names reference) [])"
    by (simp add: eq distinct_first_occurrences)
  show "set (collect_jobs (job_names reference) []) = set (job_names reference)"
    by (simp add: eq set_first_occurrences)
  show "\<exists>n. plot_graphs R args =
            Inr (n,
              [Print (''Scaling: rendering ''
                      @ string_of_nat (length (collect_jobs (job_names reference) []))
                      @ '' jobs'')]
              @ map (\<lambda>job. Request (ScalingGraph job (map get_name (traces args))))
                    (collect_jobs (job_names reference) [])
              @ [Print (''Individual: rendering ''
                        @ string_of_nat (length (collect_jobs (job_names reference) []))
                        @ '' jobs'')]
              @ map (\<lambda>job. Request (IndividualGraph job (map get_name (traces args))))
                    (collect_jobs (job_names reference) []))"
    by (simp only: plot_graphs_eq [OF assms]) blast
next
  assume "job_names reference = [A, B, A, C] \<and> distinct [A, B, C]"
  then show "collect_jobs (job_names reference) [] = [A, B, C]"
    by auto
qed

theorem job_identities_witness:
  "collect_jobs (job_names trace_ramp) [] = [''avx'', ''qsort'', ''memrate'']"
proof -
  have 1: "traces (sample_args [trace_ramp]) = trace_ramp # []"
    by (simp add: sample_args_def)
  have 2: "job_names trace_ramp = [''avx'', ''qsort'', ''avx'', ''memrate'']
           \<and> distinct [''avx'', ''qsort'', ''memrate'']"
    by (simp add: job_names_def trace_ramp_def bench_bare_def)
  from job_identities [OF 1, of "''avx''" "''qsort''" "''memrate''" one_each] 2
  show ?thesis by blast
qed

subsection \<open>A missing metric does not stop the run\<close>

lemma accumulate_Cons:
  "accumulate (p # rest) = (fst p + fst (accumulate rest), snd p @ snd (accumulate rest))"
  by (cases p) (simp split: prod.split)

lemma snd_accumulate_map:
  "snd (accumulate (map f xs)) = concat (map (\<lambda>x. snd (f x)) xs)"
  by (induction xs) (simp_all add: accumulate_Cons)

lemma snd_accumulate_triples:
  "snd (accumulate (concat (map (\<lambda>x. [f x, g x, h x]) xs)))
   = concat (map (\<lambda>x. snd (f x) @ snd (g x) @ snd (h x)) xs)"
  by (induction xs) (simp_all add: accumulate_Cons)

lemma accumulate_counted:
  assumes "\<forall>p\<in>set xs. fst p = sum_list (map R (requests (snd p)))"
  shows "fst (accumulate xs) = sum_list (map R (requests (snd (accumulate xs))))"
  using assms by (induction xs) (simp_all add: accumulate_Cons requests_append)

lemma graph_fans_events:
  "snd (graph_fans R trace bench_name)
   = (if get_components (bench trace bench_name) ''fan'' = []
      then [Print (bench_name @ '': no fans'')]
      else map Request
             (GenericGraph (filename trace) bench_name ''fan'' ''Fans speed'' (Some THERMAL)
              # GenericGraph (filename trace) bench_name ''fan'' ''Fans speed'' (Some POWER)
              # map (YerrGraph (filename trace) bench_name ''fan'')
                  (get_components (bench trace bench_name) ''fan'')))"
  by (simp add: graph_fans_none graph_fans_some)

lemma graph_fans_counted:
  "fst (graph_fans R trace bench_name)
   = sum_list (map R (requests (snd (graph_fans R trace bench_name))))"
  by (cases "get_components (bench trace bench_name) ''fan'' = []")
     (simp_all add: graph_fans_none graph_fans_some requests_map_Request comp_def)

lemma requests_map_Request_id: "requests (map Request rs) = rs"
  by (induction rs) simp_all

lemma graph_cpu_counted:
  "fst (graph_cpu R trace bench_name)
   = sum_list (map R (requests (snd (graph_cpu R trace bench_name))))"
  by (simp add: graph_cpu_eq)

lemma graph_thermal_counted:
  "fst (graph_thermal R trace bench_name)
   = sum_list (map R (requests (snd (graph_thermal R trace bench_name))))"
  by (simp add: graph_thermal_eq)

lemma dispatch_trace_counted:
  "fst (dispatch_trace R args trace)
   = sum_list (map R (requests (snd (dispatch_trace R args trace))))"
proof -
  have "fst (accumulate
             (concat
                (map (\<lambda>bench_name.
                        [graph_fans R trace bench_name,
                         graph_cpu R trace bench_name,
                         graph_thermal R trace bench_name])
                     (sort (bench_list trace)))))
        = sum_list (map R (requests (snd (accumulate
             (concat
                (map (\<lambda>bench_name.
                        [graph_fans R trace bench_name,
                         graph_cpu R trace bench_name,
                         graph_thermal R trace bench_name])
                     (sort (bench_list trace))))))))"
    by (rule accumulate_counted)
       (auto simp: graph_fans_counted graph_cpu_counted graph_thermal_counted)
  then show ?thesis
    by (simp add: dispatch_trace_def Let_def case_prod_beta)
qed

lemma dispatch_traces_counted:
  "fst (accumulate (map (dispatch_trace R args) ts))
   = sum_list (map R (requests (snd (accumulate (map (dispatch_trace R args) ts)))))"
  by (rule accumulate_counted) (auto simp: dispatch_trace_counted)

lemma dispatch_trace_events:
  "snd (dispatch_trace R args trace)
   = [MkdirSub (outdir args) (get_name trace),
      Print (''environment: rendering '' @ string_of_nat (length (bench_list trace))
             @ '' jobs from '' @ filename trace @ '' ('' @ get_name trace @ '')'')]
     @ concat (map (\<lambda>bench_name.
         (if get_components (bench trace bench_name) ''fan'' = []
          then [Print (bench_name @ '': no fans'')]
          else map Request
                 (GenericGraph (filename trace) bench_name ''fan'' ''Fans speed'' (Some THERMAL)
                  # GenericGraph (filename trace) bench_name ''fan'' ''Fans speed'' (Some POWER)
                  # map (YerrGraph (filename trace) bench_name ''fan'')
                      (get_components (bench trace bench_name) ''fan'')))
         @ map Request
             [GenericGraph (filename trace) bench_name ''watt_core''
                ''Core power consumption'' None,
              GenericGraph (filename trace) bench_name ''watt_core''
                ''Core power consumption'' (Some THERMAL),
              GenericGraph (filename trace) bench_name ''watt_core''
                ''Core power consumption'' (Some POWER),
              GenericGraph (filename trace) bench_name ''package''
                ''Package power consumption'' None,
              GenericGraph (filename trace) bench_name ''package''
                ''Package power consumption'' (Some THERMAL),
              GenericGraph (filename trace) bench_name ''package''
                ''Package power consumption'' (Some POWER),
              GenericGraph (filename trace) bench_name ''mhz_core'' ''Core frequency'' None,
              GenericGraph (filename trace) bench_name ''mhz_core'' ''Core frequency''
                (Some THERMAL),
              GenericGraph (filename trace) bench_name ''mhz_core'' ''Core frequency''
                (Some POWER)]
         @ [Request (GenericGraph (filename trace) bench_name ''temp'' ''Temperatures'' None)])
       (sort (bench_list trace)))"
  unfolding dispatch_trace_def Let_def case_prod_beta snd_conv snd_accumulate_triples
    graph_fans_events graph_cpu_eq graph_thermal_eq
  by (rule refl)

lemma detect_enclosure_notice:
  "snd (detect_enclosure args reference)
   = (if get_enclosure_serial reference \<noteq> []
         \<and> (\<forall>u\<in>set (traces args). get_enclosure_serial u = get_enclosure_serial reference)
      then [Print (''environment: All traces are from the same enclosure (''
                   @ get_enclosure_serial reference
                   @ ''), enabling --same-enclosure feature'')]
      else [])"
  by (simp add: detect_enclosure_def Let_def count_list_all)

lemma detect_enclosure_active:
  assumes "same_enclosure args
           \<or> (get_enclosure_serial reference \<noteq> []
              \<and> (\<forall>u\<in>set (traces args). get_enclosure_serial u = get_enclosure_serial reference))"
  shows "fst (detect_enclosure args reference) = args\<lparr>same_enclosure := True\<rparr>"
  using assms by (auto simp: detect_enclosure_def Let_def count_list_all)

lemma plot_graphs_events:
  assumes "traces args = reference # rest"
  shows "\<exists>m fs. plot_graphs R args = Inr (m, fs)
           \<and> fs = [Print (''Scaling: rendering '' @ string_of_nat (length 
                  (first_occurrences
                     (map (\<lambda>bench_name. job_name (bench reference bench_name))
                          (sort (bench_list reference))))) @ '' jobs'')]
                @ map (\<lambda>job. Request (ScalingGraph job (map get_name (traces args)))) 
                  (first_occurrences
                     (map (\<lambda>bench_name. job_name (bench reference bench_name))
                          (sort (bench_list reference))))
                @ [Print (''Individual: rendering '' @ string_of_nat (length 
                  (first_occurrences
                     (map (\<lambda>bench_name. job_name (bench reference bench_name))
                          (sort (bench_list reference))))) @ '' jobs'')]
                @ map (\<lambda>job. Request (IndividualGraph job (map get_name (traces args)))) 
                  (first_occurrences
                     (map (\<lambda>bench_name. job_name (bench reference bench_name))
                          (sort (bench_list reference))))
           \<and> m = sum_list (map R (requests fs))"
proof -
  have jobs: "collect_jobs (job_names reference) [] = (first_occurrences
                     (map (\<lambda>bench_name. job_name (bench reference bench_name))
                          (sort (bench_list reference))))"
    by (simp add: collect_jobs_first_occurrences job_names_def)
  show ?thesis
    unfolding plot_graphs_eq [OF assms] jobs
    by (simp add: requests_append requests_map_Request comp_def)
qed

text \<open>
  C7. With the environment graphs enabled and the same-enclosure preference
  active (given by the user, or detected from a shared enclosure serial), let
  \<open>t\<close> be the first trace in input order that lacks the \<^verbatim>\<open>chassis\<close> or the
  \<^verbatim>\<open>enclosure\<close> metric on its first bench. Then \<^verbatim>\<open>graph_environment\<close> returns
  normally, and its events are exactly: the detection notice if there is one,
  the notice naming the missing metric and the file of \<open>t\<close>, and for every
  trace in input order its directory, its summary line and, per sorted bench
  name, the fan requests (or the "no fans" line), the nine CPU requests and the
  temperature request. No environment-comparison request is among them, and the
  count is what the renderer returned for these requests. \<^verbatim>\<open>plot_graphs\<close> issues
  the scaling and then the individual request of every job identity. When the
  Compatibility Validator accepts the set, \<^verbatim>\<open>render_traces\<close> produces all of
  these events and ends with the line of the total.
\<close>

theorem missing_metric_not_fatal:
  assumes "traces args = reference # rest"
    and "no_env args"
    and "same_enclosure args
         \<or> (get_enclosure_serial reference \<noteq> []
            \<and> (\<forall>u\<in>set (traces args).
                  get_enclosure_serial u = get_enclosure_serial reference))"
    and "traces args = before @ t # after"
    and "\<forall>u\<in>set before. has_metrics u"
    and "\<not> has_metrics t"
  shows "\<exists>n es m fs.
           graph_environment R args = Inr (n, args\<lparr>same_enclosure := True\<rparr>, es)
         \<and> es = (if get_enclosure_serial reference \<noteq> []
                   \<and> (\<forall>u\<in>set (traces args).
                         get_enclosure_serial u = get_enclosure_serial reference)
                then [Print (''environment: All traces are from the same enclosure (''
                             @ get_enclosure_serial reference
                             @ ''), enabling --same-enclosure feature'')]
                else [])
                @ [Print (''environment: missing '' @ [CHR 0x27]
                          @ (if ''chassis'' \<notin> set (first_bench_metrics t) then ''chassis''
                             else ''enclosure'')
                          @ [CHR 0x27] @ '' monitoric metric in '' @ filename t
                          @ '', disabling same-enclosure print'')]
                @ concat (map (\<lambda>trace.
                  [MkdirSub (outdir args) (get_name trace),
                   Print (''environment: rendering ''
                          @ string_of_nat (length (bench_list trace))
                          @ '' jobs from '' @ filename trace
                          @ '' ('' @ get_name trace @ '')'')]
                  @ concat (map (\<lambda>bench_name.
                      (if get_components (bench trace bench_name) ''fan'' = []
                       then [Print (bench_name @ '': no fans'')]
                       else map Request
                              (GenericGraph (filename trace) bench_name ''fan''
                                 ''Fans speed'' (Some THERMAL)
                               # GenericGraph (filename trace) bench_name ''fan''
                                   ''Fans speed'' (Some POWER)
                               # map (YerrGraph (filename trace) bench_name ''fan'')
                                   (get_components (bench trace bench_name) ''fan'')))
                      @ map Request
                          [GenericGraph (filename trace) bench_name ''watt_core''
                             ''Core power consumption'' None,
                           GenericGraph (filename trace) bench_name ''watt_core''
                             ''Core power consumption'' (Some THERMAL),
                           GenericGraph (filename trace) bench_name ''watt_core''
                             ''Core power consumption'' (Some POWER),
                           GenericGraph (filename trace) bench_name ''package''
                             ''Package power consumption'' None,
                           GenericGraph (filename trace) bench_name ''package''
                             ''Package power consumption'' (Some THERMAL),
                           GenericGraph (filename trace) bench_name ''package''
                             ''Package power consumption'' (Some POWER),
                           GenericGraph (filename trace) bench_name ''mhz_core''
                             ''Core frequency'' None,
                           GenericGraph (filename trace) bench_name ''mhz_core''
                             ''Core frequency'' (Some THERMAL),
                           GenericGraph (filename trace) bench_name ''mhz_core''
                             ''Core frequency'' (Some POWER)]
                      @ [Request (GenericGraph (filename trace) bench_name ''temp''
                                    ''Temperatures'' None)])
                    (sort (bench_list trace))))
                (traces args))
         \<and> n = sum_list (map R (requests es))
         \<and> (\<forall>b. EnclosureGraph b \<notin> set (requests es))
         \<and> plot_graphs R args = Inr (m, fs)
         \<and> fs = [Print (''Scaling: rendering '' @ string_of_nat (length 
                  (first_occurrences
                     (map (\<lambda>bench_name. job_name (bench reference bench_name))
                          (sort (bench_list reference))))) @ '' jobs'')]
                @ map (\<lambda>job. Request (ScalingGraph job (map get_name (traces args)))) 
                  (first_occurrences
                     (map (\<lambda>bench_name. job_name (bench reference bench_name))
                          (sort (bench_list reference))))
                @ [Print (''Individual: rendering '' @ string_of_nat (length 
                  (first_occurrences
                     (map (\<lambda>bench_name. job_name (bench reference bench_name))
                          (sort (bench_list reference))))) @ '' jobs'')]
                @ map (\<lambda>job. Request (IndividualGraph job (map get_name (traces args)))) 
                  (first_occurrences
                     (map (\<lambda>bench_name. job_name (bench reference bench_name))
                          (sort (bench_list reference))))
         \<and> m = sum_list (map R (requests fs))
         \<and> (compare_traces args = Inr () \<longrightarrow>
              render_traces R args
                = (Inr (n + m),
                    [InitMatplotlib, Mkdir (outdir args)] @ es @ fs
                    @ [Print (string_of_nat (n + m) @ '' graphs can be found in ''
                              @ [CHR 0x27] @ path_str (outdir args) @ [CHR 0x27]
                              @ '' directory'')]))"
proof -
  define args' where "args' = args\<lparr>same_enclosure := True\<rparr>"
  define notice where "notice = snd (detect_enclosure args reference)"
  define metric where
    "metric = (if ''chassis'' \<notin> set (first_bench_metrics t) then ''chassis'' else ''enclosure'')"
  define ds where "ds = snd (accumulate (map (dispatch_trace R args') (traces args)))"
  define es where "es = notice @ [Print (missing_message metric t)] @ ds"
  define n where "n = sum_list (map R (requests es))"
  have detected: "fst (detect_enclosure args reference) = args'"
    unfolding args'_def using assms(3) by (rule detect_enclosure_active)
  have same: "traces args' = traces args" and out: "outdir args' = outdir args"
    and active: "same_enclosure args'"
    by (simp_all add: args'_def)
  from assms(4,6) have nall: "\<not> (\<forall>u\<in>set (traces args'). has_metrics u)"
    by (simp add: same)
  have loop: "valid_loop (traces args') = missing_message metric t"
    unfolding same assms(4) metric_def using assms(5,6) by (rule valid_loop_first_missing)
  have gate: "enclosure_gate R args' reference = (0, [Print (missing_message metric t)])"
    unfolding enclosure_gate_eq [OF active] using nall loop by (simp only: if_False)
  have silent: "requests notice = []"
    by (simp add: notice_def detect_enclosure_notice)
  have count: "fst (accumulate (map (dispatch_trace R args') (traces args))) = n"
    by (simp add: n_def es_def ds_def requests_append silent dispatch_traces_counted)
  from graph_environment_enabled [OF assms(1,2), of R]
  have env: "graph_environment R args = Inr (n, args', es)"
    by (simp add: detected gate count notice_def es_def ds_def)
  have free: "\<forall>b. EnclosureGraph b \<notin> set (requests es)"
    by (simp add: es_def ds_def requests_append silent dispatch_traces_no_enclosure)
  from plot_graphs_events [OF assms(1), of R] obtain m fs
    where plot: "plot_graphs R args = Inr (m, fs)"
      and fs: "fs = [Print (''Scaling: rendering '' @ string_of_nat (length 
                  (first_occurrences
                     (map (\<lambda>bench_name. job_name (bench reference bench_name))
                          (sort (bench_list reference))))) @ '' jobs'')]
                @ map (\<lambda>job. Request (ScalingGraph job (map get_name (traces args)))) 
                  (first_occurrences
                     (map (\<lambda>bench_name. job_name (bench reference bench_name))
                          (sort (bench_list reference))))
                @ [Print (''Individual: rendering '' @ string_of_nat (length 
                  (first_occurrences
                     (map (\<lambda>bench_name. job_name (bench reference bench_name))
                          (sort (bench_list reference))))) @ '' jobs'')]
                @ map (\<lambda>job. Request (IndividualGraph job (map get_name (traces args)))) 
                  (first_occurrences
                     (map (\<lambda>bench_name. job_name (bench reference bench_name))
                          (sort (bench_list reference))))"
      and m: "m = sum_list (map R (requests fs))"
    by blast
  have run: "compare_traces args = Inr () \<longrightarrow>
              render_traces R args
                = (Inr (n + m),
                    [InitMatplotlib, Mkdir (outdir args)] @ es @ fs
                    @ [Print (string_of_nat (n + m) @ '' graphs can be found in ''
                              @ [CHR 0x27] @ path_str (outdir args) @ [CHR 0x27]
                              @ '' directory'')])"
  proof
    assume "compare_traces args = Inr ()"
    from render_traces_complete [OF assms(1) env this] plot
    show "render_traces R args
                = (Inr (n + m),
                    [InitMatplotlib, Mkdir (outdir args)] @ es @ fs
                    @ [Print (string_of_nat (n + m) @ '' graphs can be found in ''
                              @ [CHR 0x27] @ path_str (outdir args) @ [CHR 0x27]
                              @ '' directory'')])"
      by simp
  qed
  have shape: "es = (if get_enclosure_serial reference \<noteq> []
                   \<and> (\<forall>u\<in>set (traces args).
                         get_enclosure_serial u = get_enclosure_serial reference)
                then [Print (''environment: All traces are from the same enclosure (''
                             @ get_enclosure_serial reference
                             @ ''), enabling --same-enclosure feature'')]
                else [])
                @ [Print (''environment: missing '' @ [CHR 0x27]
                          @ (if ''chassis'' \<notin> set (first_bench_metrics t) then ''chassis''
                             else ''enclosure'')
                          @ [CHR 0x27] @ '' monitoric metric in '' @ filename t
                          @ '', disabling same-enclosure print'')]
                @ concat (map (\<lambda>trace.
                  [MkdirSub (outdir args) (get_name trace),
                   Print (''environment: rendering ''
                          @ string_of_nat (length (bench_list trace))
                          @ '' jobs from '' @ filename trace
                          @ '' ('' @ get_name trace @ '')'')]
                  @ concat (map (\<lambda>bench_name.
                      (if get_components (bench trace bench_name) ''fan'' = []
                       then [Print (bench_name @ '': no fans'')]
                       else map Request
                              (GenericGraph (filename trace) bench_name ''fan''
                                 ''Fans speed'' (Some THERMAL)
                               # GenericGraph (filename trace) bench_name ''fan''
                                   ''Fans speed'' (Some POWER)
                               # map (YerrGraph (filename trace) bench_name ''fan'')
                                   (get_components (bench trace bench_name) ''fan'')))
                      @ map Request
                          [GenericGraph (filename trace) bench_name ''watt_core''
                             ''Core power consumption'' None,
                           GenericGraph (filename trace) bench_name ''watt_core''
                             ''Core power consumption'' (Some THERMAL),
                           GenericGraph (filename trace) bench_name ''watt_core''
                             ''Core power consumption'' (Some POWER),
                           GenericGraph (filename trace) bench_name ''package''
                             ''Package power consumption'' None,
                           GenericGraph (filename trace) bench_name ''package''
                             ''Package power consumption'' (Some THERMAL),
                           GenericGraph (filename trace) bench_name ''package''
                             ''Package power consumption'' (Some POWER),
                           GenericGraph (filename trace) bench_name ''mhz_core''
                             ''Core frequency'' None,
                           GenericGraph (filename trace) bench_name ''mhz_core''
                             ''Core frequency'' (Some THERMAL),
                           GenericGraph (filename trace) bench_name ''mhz_core''
                             ''Core frequency'' (Some POWER)]
                      @ [Request (GenericGraph (filename trace) bench_name ''temp''
                                    ''Temperatures'' None)])
                    (sort (bench_list trace))))
                (traces args))"
    unfolding es_def ds_def notice_def metric_def missing_message_def detect_enclosure_notice
      snd_accumulate_map dispatch_trace_events out
    by (rule refl)
  from env shape plot fs m run free show ?thesis
    unfolding args'_def n_def by blast
qed

theorem missing_metric_not_fatal_witness:
  "render_traces one_each ((sample_args [trace_a, trace_b])\<lparr>outdir := ''out/''\<rparr>)
   = (Inr 27,
        [InitMatplotlib, Mkdir ''out/'',
         Print (''environment: All traces are from the same enclosure (ENC1), ''
                @ ''enabling --same-enclosure feature''),
         Print (''environment: missing 'enclosure' monitoric metric in b.json, ''
                @ ''disabling same-enclosure print''),
         MkdirSub ''out/'' ''sysA'',
         Print ''environment: rendering 1 jobs from a.json (sysA)'']
        @ map Request
            [GenericGraph ''a.json'' ''avx_1'' ''fan'' ''Fans speed'' (Some THERMAL),
             GenericGraph ''a.json'' ''avx_1'' ''fan'' ''Fans speed'' (Some POWER),
             YerrGraph ''a.json'' ''avx_1'' ''fan'' ''Fan1'',
             YerrGraph ''a.json'' ''avx_1'' ''fan'' ''Fan2'',
             YerrGraph ''a.json'' ''avx_1'' ''fan'' ''Fan3'',
             GenericGraph ''a.json'' ''avx_1'' ''watt_core'' ''Core power consumption'' None,
             GenericGraph ''a.json'' ''avx_1'' ''watt_core'' ''Core power consumption'' (Some THERMAL),
             GenericGraph ''a.json'' ''avx_1'' ''watt_core'' ''Core power consumption'' (Some POWER),
             GenericGraph ''a.json'' ''avx_1'' ''package'' ''Package power consumption'' None,
             GenericGraph ''a.json'' ''avx_1'' ''package'' ''Package power consumption'' (Some THERMAL),
             GenericGraph ''a.json'' ''avx_1'' ''package'' ''Package power consumption'' (Some POWER),
             GenericGraph ''a.json'' ''avx_1'' ''mhz_core'' ''Core frequency'' None,
             GenericGraph ''a.json'' ''avx_1'' ''mhz_core'' ''Core frequency'' (Some THERMAL),
             GenericGraph ''a.json'' ''avx_1'' ''mhz_core'' ''Core frequency'' (Some POWER),
             GenericGraph ''a.json'' ''avx_1'' ''temp'' ''Temperatures'' None]
        @ [MkdirSub ''out/'' ''sysB'',
           Print ''environment: rendering 1 jobs from b.json (sysB)'',
           Print ''avx_1: no fans'']
        @ map Request
            [GenericGraph ''b.json'' ''avx_1'' ''watt_core'' ''Core power consumption'' None,
             GenericGraph ''b.json'' ''avx_1'' ''watt_core'' ''Core power consumption'' (Some THERMAL),
             GenericGraph ''b.json'' ''avx_1'' ''watt_core'' ''Core power consumption'' (Some POWER),
             GenericGraph ''b.json'' ''avx_1'' ''package'' ''Package power consumption'' None,
             GenericGraph ''b.json'' ''avx_1'' ''package'' ''Package power consumption'' (Some THERMAL),
             GenericGraph ''b.json'' ''avx_1'' ''package'' ''Package power consumption'' (Some POWER),
             GenericGraph ''b.json'' ''avx_1'' ''mhz_core'' ''Core frequency'' None,
             GenericGraph ''b.json'' ''avx_1'' ''mhz_core'' ''Core frequency'' (Some THERMAL),
             GenericGraph ''b.json'' ''avx_1'' ''mhz_core'' ''Core frequency'' (Some POWER),
             GenericGraph ''b.json'' ''avx_1'' ''temp'' ''Temperatures'' None]
        @ [Print ''Scaling: rendering 1 jobs'',
           Request (ScalingGraph ''avx'' [''sysA'', ''sysB'']),
           Print ''Individual: rendering 1 jobs'',
           Request (IndividualGraph ''avx'' [''sysA'', ''sysB'']),
           Print ''27 graphs can be found in 'out' directory''])"
proof -
  have 1: "traces ((sample_args [trace_a, trace_b])\<lparr>outdir := ''out/''\<rparr>) = trace_a # [trace_b]"
    and 2: "no_env ((sample_args [trace_a, trace_b])\<lparr>outdir := ''out/''\<rparr>)"
    and 4: "traces ((sample_args [trace_a, trace_b])\<lparr>outdir := ''out/''\<rparr>) = [trace_a] @ trace_b # []"
    by (simp_all add: sample_args_def)
  have 3: "same_enclosure ((sample_args [trace_a, trace_b])\<lparr>outdir := ''out/''\<rparr>)
         \<or> (get_enclosure_serial trace_a \<noteq> []
            \<and> (\<forall>u\<in>set (traces ((sample_args [trace_a, trace_b])\<lparr>outdir := ''out/''\<rparr>)).
                  get_enclosure_serial u = get_enclosure_serial trace_a))"
    by (simp add: sample_args_def trace_a_def trace_b_def)
  have 5: "\<forall>u\<in>set [trace_a]. has_metrics u"
    and 6: "\<not> has_metrics trace_b"
    by (simp_all add: has_metrics_def trace_a_def trace_b_def)
  have valid: "compare_traces ((sample_args [trace_a, trace_b])\<lparr>outdir := ''out/''\<rparr>) = Inr ()"
    by (simp add: compare_traces_def sample_args_def config_difference_def
        trace_a_def trace_b_def insert_commute)
  from missing_metric_not_fatal [OF 1 2 3 4 5 6, of one_each] valid
  show ?thesis
    by (elim exE conjE)
       (simp add: sample_args_def trace_a_def trace_b_def bench_fans_def bench_bare_def
          one_each_def path_str_def splitroot_def)
qed

subsection \<open>The validator and the order of the run\<close>

text \<open>
  C2, amended. Let \<open>t\<close> be the first trace in input order whose configuration
  lacks an entry of the reference's configuration. If the logical names of the
  traces before \<open>t\<close> are pairwise distinct, the validator aborts with the fatal
  configuration-mismatch message that names the file of \<open>t\<close>, and
  \<^verbatim>\<open>render_traces\<close> stops with that error: nothing is produced after the events of
  the stage that ran before the validator.
\<close>

theorem compare_traces_mismatch:
  assumes "traces args = reference # rest"
    and "traces args = before @ t # after"
    and "\<forall>u\<in>set before. config_difference reference u = {}"
    and "config_difference reference t \<noteq> {}"
    and "distinct (map get_name before)"
  shows "compare_traces args
           = Inl (Fatal (filename t
                         @ '' is not having the same configuration file as previous traces''))
       \<and> (\<exists>n args' es. graph_environment R args = Inr (n, args', es)
            \<and> render_traces R args
                = (Inl (Fatal (filename t
                     @ '' is not having the same configuration file as previous traces'')),
                   [InitMatplotlib, Mkdir (outdir args)] @ es))"
proof -
  have "compare_loop (reference # rest) (before @ t # after) []
        = Inl (Fatal (mismatch_message t))"
    using assms(3,5,4) by (rule compare_loop_mismatch)
  moreover have "compare_loop (traces args) (traces args) []
        = compare_loop (reference # rest) (before @ t # after) []"
    by (simp only: assms(1) [symmetric] assms(2) [symmetric])
  ultimately have abort: "compare_traces args = Inl (Fatal (mismatch_message t))"
    by (simp only: compare_traces_def sum.case)
  from abort render_traces_abort [OF assms(1) abort, of R] show ?thesis
    by (simp only: mismatch_message_def)
qed

theorem compare_traces_mismatch_witness:
  "compare_traces (sample_args [trace_a, trace_b, trace_c])
     = Inl (Fatal ''c.json is not having the same configuration file as previous traces'')
   \<and> fst (render_traces one_each (sample_args [trace_a, trace_b, trace_c]))
     = Inl (Fatal ''c.json is not having the same configuration file as previous traces'')"
proof -
  have 1: "traces (sample_args [trace_a, trace_b, trace_c]) = trace_a # [trace_b, trace_c]"
    by (simp add: sample_args_def)
  have 2: "traces (sample_args [trace_a, trace_b, trace_c]) = [trace_a, trace_b] @ trace_c # []"
    by (simp add: sample_args_def)
  have 3: "\<forall>u\<in>set [trace_a, trace_b]. config_difference trace_a u = {}"
    by (simp add: config_difference_def trace_a_def trace_b_def insert_commute)
  have 4: "config_difference trace_a trace_c \<noteq> {}"
    by (simp add: config_difference_def trace_a_def trace_c_def)
  have 5: "distinct (map get_name [trace_a, trace_b])"
    by (simp add: trace_a_def trace_b_def)
  have 6: "filename trace_c = ''c.json''"
    by (simp add: trace_c_def)
  from compare_traces_mismatch [OF 1 2 3 4 5, of one_each] show ?thesis
    unfolding 6 by auto
qed

text \<open>
  Without the condition on the names the statement fails: in the set below the
  third trace is the first that lacks a job of the reference configuration, but
  the second reuses the first logical name, and the validator aborts there with
  the duplicate-name message for \<^verbatim>\<open>d.json\<close>.
\<close>

theorem compare_traces_mismatch_counterexample:
  "config_difference trace_a trace_d = {}
   \<and> config_difference trace_a trace_c \<noteq> {}
   \<and> filename trace_c = ''c.json''
   \<and> compare_traces (sample_args [trace_a, trace_d, trace_c])
       = Inl (Fatal ''d.json is using 'sysA' as logical_name while it's already in use'')
   \<and> compare_traces (sample_args [trace_a, trace_d, trace_c])
       \<noteq> Inl (Fatal ''c.json is not having the same configuration file as previous traces'')"
  by (simp add: compare_traces_def sample_args_def trace_a_def trace_c_def trace_d_def
      config_difference_def duplicate_message_def)

lemmas sample_defs = sample_args_def trace_a_def trace_b_def trace_c_def trace_d_def trace_ramp_def
  bench_fans_def bench_bare_def one_each_def

lemmas model_defs = render_traces_def graph_environment_def compare_traces_def plot_graphs_def
  detect_enclosure_def enclosure_gate_def valid_traces_def dispatch_trace_def
  graph_fans_def graph_cpu_def graph_thermal_def generic_graph_def yerr_graph_def
  graph_enclosure_def scaling_graph_def individual_graph_def issue_def cpu_graphs_def
  config_difference_def mismatch_message_def duplicate_message_def missing_message_def
  not_unique_message_def job_names_def Let_def

text \<open>
  C1. The Compatibility Validator is to run before any graph request is issued.
  \<^verbatim>\<open>render_traces\<close> calls \<^verbatim>\<open>graph_environment\<close> first and \<^verbatim>\<open>compare_traces\<close> after
  it. On the set of \<open>trace_a\<close> and \<open>trace_c\<close>, the second of which lacks a job of
  the reference configuration, the validator rejects the set and the run ends
  with its fatal error, yet 25 graph requests have been issued by then, among
  them the temperature graph of the rejected trace.
\<close>

theorem render_traces_graphs_before_validation:
  "compare_traces (sample_args [trace_a, trace_c])
     = Inl (Fatal ''c.json is not having the same configuration file as previous traces'')
   \<and> fst (render_traces one_each (sample_args [trace_a, trace_c]))
     = Inl (Fatal ''c.json is not having the same configuration file as previous traces'')
   \<and> length (requests (snd (render_traces one_each (sample_args [trace_a, trace_c])))) = 25
   \<and> Request (GenericGraph ''c.json'' ''avx_1'' ''temp'' ''Temperatures'' None)
       \<in> set (snd (render_traces one_each (sample_args [trace_a, trace_c])))"
  by (simp add: model_defs sample_defs)

end
